theory Spec2Isabelle
  imports Main
begin

section \<open>JavaScript strings\<close>

text \<open>
  A JavaScript string is a sequence of code units. It is modelled as a \<open>string\<close>
  (\<open>char list\<close>), one \<open>char\<close> per code unit, which covers the code units
  0..255 (Latin-1): enough for every literal of the program, among them the
  code unit \<open>0xF3\<close> in the localized file name. \<open>undefined\<close> and \<open>null\<close>
  are \<open>None\<close> of an option type.
\<close>

text \<open>\<open>s.startsWith(p)\<close>, used to define \<open>String.prototype.includes\<close>.\<close>

fun startsWith :: "string \<Rightarrow> string \<Rightarrow> bool" where
  "startsWith s [] = True"
| "startsWith [] (p # ps) = False"
| "startsWith (c # cs) (p # ps) = (c = p \<and> startsWith cs ps)"

text \<open>\<open>s.includes(t)\<close>: \<open>t\<close> occurs in \<open>s\<close> as a contiguous substring.\<close>

fun includes_str :: "string \<Rightarrow> string \<Rightarrow> bool" where
  "includes_str [] t = (t = [])"
| "includes_str (c # cs) t = (startsWith (c # cs) t \<or> includes_str cs t)"

text \<open>
  The white space and line terminators that \<open>String.prototype.trim\<close> strips, as far as
  they lie in 0..255: TAB, LF, VT, FF, CR, SPACE and NBSP.
\<close>

definition isWhiteSpace :: "char \<Rightarrow> bool" where
  "isWhiteSpace c = (c \<in> set [CHR 0x09, CHR 0x0A, CHR 0x0B, CHR 0x0C, CHR 0x0D, CHR 0x20, CHR 0xA0])"

definition trim :: "string \<Rightarrow> string" where
  "trim s = rev (dropWhile isWhiteSpace (rev (dropWhile isWhiteSpace s)))"

text \<open>Truthiness of a string value that may be \<open>undefined\<close> or \<open>null\<close>.\<close>

fun truthy :: "string option \<Rightarrow> bool" where
  "truthy None = False"
| "truthy (Some s) = (s \<noteq> [])"

section \<open>Identifier Resolver: \<open>extractSpreadsheetId\<close>\<close>

text \<open>The character class \<open>[a-zA-Z0-9-_]\<close> of the three patterns.\<close>

definition isIdChar :: "char \<Rightarrow> bool" where
  "isIdChar c =
     (let n = (of_char c :: nat)
      in (97 \<le> n \<and> n \<le> 122) \<or> (65 \<le> n \<and> n \<le> 90) \<or> (48 \<le> n \<and> n \<le> 57)
         \<or> c = CHR ''-'' \<or> c = CHR ''_'')"

text \<open>
  Each pattern is a literal followed by the capturing group \<open>([a-zA-Z0-9-_]+)\<close>.
  \<open>capture_at lit s\<close> is the attempt to match at the start of \<open>s\<close>: the literal, then
  the longest non-empty run of class characters (\<open>+\<close> is greedy and nothing follows it).
  \<open>regex_capture lit s\<close> is \<open>s.match(pattern)[1]\<close>: the attempt at the leftmost position
  where it succeeds, \<open>None\<close> when \<open>match\<close> returns \<open>null\<close>.
\<close>

definition capture_at :: "string \<Rightarrow> string \<Rightarrow> string option" where
  "capture_at lit s =
     (if startsWith s lit
      then (let run = takeWhile isIdChar (drop (length lit) s)
            in if run = [] then None else Some run)
      else None)"

fun regex_capture :: "string \<Rightarrow> string \<Rightarrow> string option" where
  "regex_capture lit [] = capture_at lit []"
| "regex_capture lit (c # cs) =
     (case capture_at lit (c # cs) of
        Some r \<Rightarrow> Some r
      | None \<Rightarrow> regex_capture lit cs)"

text \<open>The literals of \<open>patterns\<close>, in the order of the array.\<close>

definition patterns :: "string list" where
  "patterns = [''/spreadsheets/d/'', ''spreadsheets/d/'', ''/d/'']"

text \<open>
  The \<open>for (const pattern of patterns)\<close> loop: the first pattern that matches with a
  truthy group returns it. The group is never empty, so \<open>match[1]\<close> is always truthy.
\<close>

fun first_capture :: "string list \<Rightarrow> string \<Rightarrow> string option" where
  "first_capture [] input = None"
| "first_capture (p # ps) input =
     (case regex_capture p input of
        Some r \<Rightarrow> Some r
      | None \<Rightarrow> first_capture ps input)"

text \<open>\<open>extractSpreadsheetId\<close> is the same function in \<open>index.js\<close> and in the server.\<close>

definition extractSpreadsheetId :: "string option \<Rightarrow> string option" where
  "extractSpreadsheetId input =
     (if \<not> truthy input then None
      else (let s = the input
            in if \<not> includes_str s ''/'' \<and> \<not> includes_str s ''http'' then Some (trim s)
               else (case first_capture patterns s of
                       Some r \<Rightarrow> Some r
                     | None \<Rightarrow> Some (trim s))))"

subsection \<open>References that arrive in the request payload\<close>

text \<open>
  The server takes its spreadsheet references from the JSON body of the request and
  checks of \<open>targetSheets\<close> only that it is an array (\<open>Array.isArray\<close>) and of
  \<open>sourceSheet\<close> only that it is truthy, so \<open>extractSpreadsheetId\<close> can be called on
  any JSON value. Of a number the program reads only whether it is zero; it is modelled
  by an integer.
\<close>

datatype json =
    JNull
  | JBool bool
  | JNumber int
  | JString string
  | JArray "json list"
  | JObject "(string \<times> json) list"

fun js_truthy :: "json \<Rightarrow> bool" where
  "js_truthy JNull = False"
| "js_truthy (JBool b) = b"
| "js_truthy (JNumber n) = (n \<noteq> 0)"
| "js_truthy (JString s) = (s \<noteq> [])"
| "js_truthy (JArray xs) = True"
| "js_truthy (JObject kvs) = True"

text \<open>
  \<open>extractSpreadsheetId\<close> on a JSON value: \<open>Inr\<close> is the value returned, \<open>Inl\<close> the
  message of the TypeError thrown (as Node words it). A falsy value returns \<open>null\<close>. A
  string goes through the function as modelled above. A number, \<open>true\<close> or an object has
  no callable \<open>includes\<close>. An array has \<open>Array.prototype.includes\<close>, which looks for the
  string among the elements, and then has no \<open>trim\<close> and no \<open>match\<close>.
\<close>

definition extractSpreadsheetId_value :: "json \<Rightarrow> string + string option" where
  "extractSpreadsheetId_value input =
     (if \<not> js_truthy input then Inr None
      else (case input of
              JString s \<Rightarrow> Inr (extractSpreadsheetId (Some s))
            | JArray xs \<Rightarrow>
                if JString ''/'' \<notin> set xs \<and> JString ''http'' \<notin> set xs
                then Inl ''input.trim is not a function''
                else Inl ''input.match is not a function''
            | _ \<Rightarrow> Inl ''input.includes is not a function''))"

section \<open>Manifest Reader\<close>

text \<open>
  The Sheets API returns the range as rows of string cells; a row is as long as its last
  non-empty cell, so \<open>row[i]\<close> may be \<open>undefined\<close>.
\<close>

type_synonym row = "string list"

definition cell :: "row \<Rightarrow> nat \<Rightarrow> string option" where
  "cell r i = (if i < length r then Some (r ! i) else None)"

text \<open>\<open>s.split(',')\<close>: the pieces between the commas; never the empty array.\<close>

fun split_comma :: "string \<Rightarrow> string list" where
  "split_comma [] = [[]]"
| "split_comma (c # cs) =
     (if c = CHR '','' then [] # split_comma cs
      else (let r = split_comma cs in (c # hd r) # tl r))"

text \<open>
  \<open>str.split(',').map(x => x.trim()).filter(x => x)\<close>, the decoding of the asset cell
  and of the coordinate cell, both guarded by \<open>row[i] ? ... : []\<close>.
\<close>

definition split_trim_filter :: "string option \<Rightarrow> string list" where
  "split_trim_filter c =
     (if truthy c then filter (\<lambda>x. x \<noteq> []) (map trim (split_comma (the c))) else [])"

subsection \<open>\<open>parseInt\<close>\<close>

text \<open>
  \<open>parseInt(string)\<close> with no radix: leading white space is skipped, a sign is read,
  a prefix \<open>0x\<close>/\<open>0X\<close> selects radix 16, and the longest prefix of digits of the radix
  is the value; with no digit the result is \<open>NaN\<close>, modelled as \<open>None\<close>, and that
  classification is exact. A value is modelled by the mathematical integer of the digits.
  That is the Number returned as long as its magnitude is at most \<open>2^53\<close>; beyond it
  JavaScript rounds to a double, or returns \<open>Infinity\<close>, which the model does not follow.
\<close>

definition digit_value :: "char \<Rightarrow> nat" where
  "digit_value c =
     (let n = (of_char c :: nat)
      in if 48 \<le> n \<and> n \<le> 57 then n - 48
         else if 97 \<le> n \<and> n \<le> 102 then n - 87
         else n - 55)"

definition isDigit :: "nat \<Rightarrow> char \<Rightarrow> bool" where
  "isDigit R c =
     (let n = (of_char c :: nat)
      in (48 \<le> n \<and> n \<le> 57)
         \<or> (R = 16 \<and> ((97 \<le> n \<and> n \<le> 102) \<or> (65 \<le> n \<and> n \<le> 70))))"

definition digits_value :: "nat \<Rightarrow> string \<Rightarrow> nat" where
  "digits_value R Z = foldl (\<lambda>acc c. acc * R + digit_value c) 0 Z"

definition parseInt :: "string \<Rightarrow> int option" where
  "parseInt str =
     (let s = dropWhile isWhiteSpace str;
          sign = (if startsWith s ''-'' then (-1::int) else 1);
          s1 = (if startsWith s ''-'' \<or> startsWith s ''+'' then drop 1 s else s);
          R = (if startsWith s1 ''0x'' \<or> startsWith s1 ''0X'' then (16::nat) else 10);
          s2 = (if R = 16 then drop 2 s1 else s1);
          Z = takeWhile (isDigit R) s2
      in if Z = [] then None else Some (sign * int (digits_value R Z)))"

subsection \<open>Coordinate pairs\<close>

text \<open>
  The loop \<open>for (let i = 0; i < coordinates.length; i += 2)\<close>: a pair is pushed when
  token \<open>i + 1\<close> exists and neither \<open>parseInt\<close> is \<open>NaN\<close>.
\<close>

function coordinatePairs_loop :: "string list \<Rightarrow> nat \<Rightarrow> (int \<times> int) list \<Rightarrow> (int \<times> int) list" where
  "coordinatePairs_loop coords i pairs =
     (if i < length coords
      then coordinatePairs_loop coords (i + 2)
             (if i + 1 < length coords
              then (case (parseInt (coords ! i), parseInt (coords ! (i + 1))) of
                      (Some col, Some rowNum) \<Rightarrow> pairs @ [(col, rowNum)]
                    | _ \<Rightarrow> pairs)
              else pairs)
      else pairs)"
  by pat_completeness auto
termination
  by (relation "measure (\<lambda>(coords, i, pairs). length coords - i)") auto

declare coordinatePairs_loop.simps [simp del]

definition coordinatePairs :: "string list \<Rightarrow> (int \<times> int) list" where
  "coordinatePairs coords = coordinatePairs_loop coords 0 []"

subsection \<open>\<open>readScriptIds\<close> (server): the rows into a \<open>Map\<close>\<close>

text \<open>The value stored under a spreadsheet ID.\<close>

record targetData =
  scriptId :: string
  buttonImageIds :: "string list"
  coordinates :: "(int \<times> int) list"

type_synonym scriptIdMap = "string \<rightharpoonup> targetData"

text \<open>\<open>row[1] ? row[1].trim() : null\<close>.\<close>

definition row_scriptId :: "row \<Rightarrow> string option" where
  "row_scriptId r = (if truthy (cell r 1) then Some (trim (the (cell r 1))) else None)"

definition row_buttonImageIds :: "row \<Rightarrow> string list" where
  "row_buttonImageIds r = split_trim_filter (cell r 2)"

definition row_coordinatePairs :: "row \<Rightarrow> (int \<times> int) list" where
  "row_coordinatePairs r = coordinatePairs (split_trim_filter (cell r 3))"

text \<open>
  The body of \<open>rows.forEach\<close>: the entry is set when \<open>spreadsheetId && scriptId\<close>;
  otherwise the row is only reported by \<open>console.warn\<close> (logging is not modelled).
\<close>

definition row_step :: "row \<Rightarrow> scriptIdMap \<Rightarrow> scriptIdMap" where
  "row_step r m =
     (let spreadsheetId = extractSpreadsheetId (cell r 0);
          scriptId' = row_scriptId r
      in if truthy spreadsheetId \<and> truthy scriptId'
         then m(the spreadsheetId \<mapsto>
                  \<lparr>scriptId = the scriptId',
                   buttonImageIds = row_buttonImageIds r,
                   coordinates = row_coordinatePairs r\<rparr>)
         else m)"

fun forEach_rows :: "row list \<Rightarrow> scriptIdMap \<Rightarrow> scriptIdMap" where
  "forEach_rows [] m = m"
| "forEach_rows (r # rs) m = forEach_rows rs (row_step r m)"

text \<open>The Map that \<open>readScriptIds\<close> returns for the fetched rows.\<close>

definition readScriptIds_rows :: "row list \<Rightarrow> scriptIdMap" where
  "readScriptIds_rows rows = forEach_rows rows Map.empty"

subsection \<open>\<open>readSheetIds\<close> (\<open>index.js\<close>): the rows into an array\<close>

record sheetItem =
  item_spreadsheetId :: "string option"
  item_scriptId :: "string option"

definition sheetItem_of :: "row \<Rightarrow> sheetItem" where
  "sheetItem_of r =
     \<lparr>item_spreadsheetId = extractSpreadsheetId (cell r 0),
      item_scriptId = row_scriptId r\<rparr>"

definition readSheetIds_rows :: "row list \<Rightarrow> sheetItem list" where
  "readSheetIds_rows rows =
     filter (\<lambda>item. truthy (item_spreadsheetId item)) (map sheetItem_of rows)"

subsection \<open>The pairing, read off the token list\<close>

text \<open>
  The tokens taken two at a time: what the index loop computes (lemma
  \<open>coordinatePairs_pair_tokens\<close>), in a form that induction on the list can use.
\<close>

fun pair_tokens :: "string list \<Rightarrow> (int \<times> int) list" where
  "pair_tokens (a # b # rest) =
     (case (parseInt a, parseInt b) of
        (Some col, Some rowNum) \<Rightarrow> [(col, rowNum)]
      | _ \<Rightarrow> []) @ pair_tokens rest"
| "pair_tokens [a] = []"
| "pair_tokens [] = []"

section \<open>Script projects and the Content Transfer Engine\<close>

text \<open>
  A file of a script project as the Apps Script API returns it. \<open>type\<close> is a string of
  the API (\<open>SERVER_JS\<close>, \<open>JSON\<close>, \<open>HTML\<close>).
\<close>

record scriptFile =
  name :: string
  type :: string
  source :: string

text \<open>The localized file name, with its code unit \<open>0xF3\<close>.\<close>

definition Codigo :: string where
  "Codigo = ''C'' @ [CHR 0xF3] @ ''digo''"

subsection \<open>\<open>index.js\<close>: \<open>updateScriptContent\<close>\<close>

text \<open>\<open>sourceContent.files.find(...)\<close>: the first file of the list that the predicate accepts.\<close>

definition sourceCodeFile :: "scriptFile list \<Rightarrow> scriptFile option" where
  "sourceCodeFile files =
     find (\<lambda>f. name f = ''Code'' \<or> name f = Codigo \<or> includes_str (name f) ''Code'') files"

text \<open>\<open>existingContent.data.files.map(...)\<close>: the list pushed to the target.\<close>

definition updatedFiles :: "scriptFile \<Rightarrow> scriptFile list \<Rightarrow> scriptFile list" where
  "updatedFiles src existing =
     map (\<lambda>file. if name file = ''Code'' \<or> name file = Codigo \<or> type file = ''SERVER_JS''
                  then \<lparr>name = name file, type = type file, source = source src\<rparr>
                  else file) existing"

subsection \<open>Server: \<open>copyFunction\<close>\<close>

definition sourceFunctionFile :: "scriptFile list \<Rightarrow> scriptFile option" where
  "sourceFunctionFile sourceFiles =
     find (\<lambda>f. name f = ''Code'' \<and> type f = ''SERVER_JS'') sourceFiles"

text \<open>The target's files without \<open>Code\<close>, then the new \<open>Code\<close> file pushed at the end.\<close>

definition targetFiles_pushed :: "scriptFile \<Rightarrow> scriptFile list \<Rightarrow> scriptFile list" where
  "targetFiles_pushed src targetFiles =
     filter (\<lambda>f. name f \<noteq> ''Code'') targetFiles
       @ [\<lparr>name = ''Code'', type = ''SERVER_JS'', source = source src\<rparr>]"

subsection \<open>Code-file selection as the specification words it\<close>


section \<open>Remote services and effects\<close>

text \<open>
  The Google APIs are external. Each call the program makes is one constructor of
  \<open>call\<close>, with the arguments that identify it; the calls made so far are the trace.
\<close>

datatype call =
    SpreadsheetsGet string "string option"
  | ValuesGet string string
  | DriveFilesList string
  | ProjectsGet string
  | ProjectsGetContent string
  | ProjectsUpdateContent string "scriptFile list"
  | ScriptsRun string string

text \<open>One entry of the \<open>buttons\<close> array that the generated script returns.\<close>

record buttonDetail =
  position :: string
  imageId :: string
  error :: "string option"

text \<open>\<open>runResponse.data.response.result\<close>, each field possibly absent.\<close>

record executionResult =
  copiedCount :: "int option"
  buttons :: "buttonDetail list option"
  message :: "string option"

text \<open>
  \<open>runResponse.data\<close>: with an \<open>error\<close> (its message), or with an optional
  \<open>response.result\<close>.
\<close>

datatype runData = RunError string | RunResponse "executionResult option"

text \<open>
  The services, over a state \<open>'w\<close> of the remote world. A call returns \<open>Inl\<close> of the
  message of the error it throws, or \<open>Inr\<close> of the part of \<open>response.data\<close> that the
  program reads: the sheet titles, \<open>values\<close>, the IDs of \<open>files\<close>, \<open>title\<close>,
  \<open>files\<close>. Nothing is assumed about them: the theorems hold for every \<open>remote\<close>
  unless they name one.
\<close>

record 'w remote =
  spreadsheets_get :: "string \<Rightarrow> string option \<Rightarrow> 'w \<Rightarrow> (string + string list) \<times> 'w"
  values_get :: "string \<Rightarrow> string \<Rightarrow> 'w \<Rightarrow> (string + row list option) \<times> 'w"
  files_list :: "string \<Rightarrow> 'w \<Rightarrow> (string + string list option) \<times> 'w"
  projects_get :: "string \<Rightarrow> 'w \<Rightarrow> (string + string option) \<times> 'w"
  projects_getContent :: "string \<Rightarrow> 'w \<Rightarrow> (string + scriptFile list option) \<times> 'w"
  projects_updateContent :: "string \<Rightarrow> scriptFile list \<Rightarrow> 'w \<Rightarrow> (string + unit) \<times> 'w"
  scripts_run :: "string \<Rightarrow> string \<Rightarrow> 'w \<Rightarrow> (string + runData) \<times> 'w"

text \<open>
  A computation runs on the trace and the world, and returns a value or throws: \<open>Inl\<close>
  carries \<open>error.message\<close>, the only part of an error that the program reads outside
  its logging.
\<close>

type_synonym 'w state = "call list \<times> 'w"

type_synonym ('a, 'w) io = "'w state \<Rightarrow> (string + 'a) \<times> 'w state"

definition api_call :: "call \<Rightarrow> ('w \<Rightarrow> (string + 'a) \<times> 'w) \<Rightarrow> ('a, 'w) io" where
  "api_call c f s = (case f (snd s) of (r, w') \<Rightarrow> (r, (fst s @ [c], w')))"

definition return_ok :: "'a \<Rightarrow> ('a, 'w) io" where
  "return_ok x s = (Inr x, s)"

definition throw :: "string \<Rightarrow> ('a, 'w) io" where
  "throw e s = (Inl e, s)"

text \<open>\<open>const x = await m; k(x)\<close>: an error of \<open>m\<close> propagates.\<close>

definition await :: "('a, 'w) io \<Rightarrow> ('a \<Rightarrow> ('b, 'w) io) \<Rightarrow> ('b, 'w) io" where
  "await m k s = (case m s of (Inl e, s') \<Rightarrow> (Inl e, s') | (Inr x, s') \<Rightarrow> k x s')"

text \<open>\<open>try { m } catch (error) { h(error.message) }\<close>.\<close>

definition try_catch :: "('a, 'w) io \<Rightarrow> (string \<Rightarrow> ('a, 'w) io) \<Rightarrow> ('a, 'w) io" where
  "try_catch m h s = (case m s of (Inl e, s') \<Rightarrow> h e s' | (Inr x, s') \<Rightarrow> (Inr x, s'))"

subsection \<open>Numbers and values in template literals\<close>

definition digit_char :: "nat \<Rightarrow> char" where
  "digit_char d = char_of (48 + d)"

function show_nat :: "nat \<Rightarrow> string" where
  "show_nat n = (if n < 10 then [digit_char n] else show_nat (n div 10) @ [digit_char (n mod 10)])"
  by pat_completeness auto
termination
  by (relation "measure (\<lambda>n. n)") auto

declare show_nat.simps [simp del]

definition show_int :: "int \<Rightarrow> string" where
  "show_int i = (if i < 0 then ''-'' @ show_nat (nat (- i)) else show_nat (nat i))"

text \<open>A string or \<open>null\<close> inside a template literal.\<close>

fun render :: "string option \<Rightarrow> string" where
  "render None = ''null''"
| "render (Some s) = s"

text \<open>\<open>names.join(', ')\<close>.\<close>

fun join_comma :: "string list \<Rightarrow> string" where
  "join_comma [] = []"
| "join_comma [x] = x"
| "join_comma (x # y # ys) = x @ '', '' @ join_comma (y # ys)"

subsection \<open>Configuration\<close>

text \<open>The module-level constants of the server, read from the environment.\<close>

record config =
  SHEET_NAME :: string
  SHEET_ID_COLUMN :: string
  BUTTON_COORDINATES_COLUMN :: string
  START_ROW :: int
  SOURCE_SCRIPT_ID :: string

section \<open>\<open>index.js\<close>: the command-line copier\<close>

text \<open>
  \<open>main\<close> authorises, reads the targets with \<open>readSheetIds\<close>, reads the source
  project once, and then loops over the targets; the loop is modelled with the source's
  file list as a parameter.
\<close>

text \<open>The \<open>q\<close> of \<open>drive.files.list\<close>; \<open>0x27\<close> is the single quote.\<close>

definition drive_query :: "string \<Rightarrow> string" where
  "drive_query spreadsheetId =
     [CHR 0x27] @ spreadsheetId @ [CHR 0x27] @ '' in parents and mimeType=''
       @ [CHR 0x27] @ ''application/vnd.google-apps.script'' @ [CHR 0x27]"

text \<open>
  \<open>getScriptProjectId\<close>: the ID of the first script file under the spreadsheet, or
  \<open>null\<close>; every error is caught and gives \<open>null\<close>.
\<close>

definition getScriptProjectId :: "'w remote \<Rightarrow> string \<Rightarrow> (string option, 'w) io" where
  "getScriptProjectId R spreadsheetId =
     try_catch
       (await (api_call (SpreadsheetsGet spreadsheetId None)
                 (spreadsheets_get R spreadsheetId None)) (\<lambda>spreadsheet.
        await (api_call (DriveFilesList (drive_query spreadsheetId))
                 (files_list R (drive_query spreadsheetId))) (\<lambda>files.
        return_ok (case files of Some (f # fs) \<Rightarrow> Some f | _ \<Rightarrow> None))))
       (\<lambda>error. return_ok None)"

text \<open>
  \<open>updateScriptContent\<close>: the target's content is fetched first, then the code file is
  looked up in the source, then the mapped list is pushed. The \<open>catch\<close> logs and rethrows
  the same error. \<open>existingContent.data.files\<close> being \<open>undefined\<close> is the TypeError of
  \<open>.map\<close>, with the message Node gives it.
\<close>

definition updateScriptContent :: "'w remote \<Rightarrow> string \<Rightarrow> scriptFile list \<Rightarrow> (unit, 'w) io" where
  "updateScriptContent R scriptProjectId sourceFiles =
     await (api_call (ProjectsGetContent scriptProjectId)
              (projects_getContent R scriptProjectId)) (\<lambda>existingFiles.
       case sourceCodeFile sourceFiles of
         None \<Rightarrow> throw ''No Code.gs file found in source project''
       | Some src \<Rightarrow>
           (case existingFiles of
              None \<Rightarrow> throw ''Cannot read properties of undefined (reading 'map')''
            | Some existing \<Rightarrow>
                await (api_call (ProjectsUpdateContent scriptProjectId (updatedFiles src existing))
                         (projects_updateContent R scriptProjectId (updatedFiles src existing)))
                  (\<lambda>response. return_ok ())))"

text \<open>
  The \<open>try\<close> block of the loop of \<open>main\<close>, for one target: \<open>True\<close> when the content
  was copied, \<open>False\<close> when no script project was found (the \<open>continue\<close> branch).
  The targets come from \<open>readSheetIds\<close>, so their \<open>spreadsheetId\<close> is never \<open>null\<close>.
\<close>

definition main_try :: "'w remote \<Rightarrow> scriptFile list \<Rightarrow> sheetItem \<Rightarrow> (bool, 'w) io" where
  "main_try R sourceFiles target =
     await (if truthy (item_scriptId target) then return_ok (item_scriptId target)
            else getScriptProjectId R (render (item_spreadsheetId target)))
       (\<lambda>targetScriptProjectId.
          if \<not> truthy targetScriptProjectId then return_ok False
          else await (updateScriptContent R (the targetScriptProjectId) sourceFiles)
                 (\<lambda>u. return_ok True))"

record counts =
  successCount :: nat
  failCount :: nat

text \<open>One iteration of the loop: the \<open>try\<close> block, its \<open>continue\<close> and its \<open>catch\<close>.\<close>

definition main_body ::
  "'w remote \<Rightarrow> scriptFile list \<Rightarrow> sheetItem \<Rightarrow> counts \<times> 'w state \<Rightarrow> counts \<times> 'w state" where
  "main_body R sourceFiles target cs =
     (case main_try R sourceFiles target (snd cs) of
        (Inr True, s') \<Rightarrow> ((fst cs)\<lparr>successCount := successCount (fst cs) + 1\<rparr>, s')
      | (Inr False, s') \<Rightarrow> ((fst cs)\<lparr>failCount := failCount (fst cs) + 1\<rparr>, s')
      | (Inl msg, s') \<Rightarrow> ((fst cs)\<lparr>failCount := failCount (fst cs) + 1\<rparr>, s'))"

fun main_loop ::
  "'w remote \<Rightarrow> scriptFile list \<Rightarrow> sheetItem list \<Rightarrow> counts \<times> 'w state \<Rightarrow> counts \<times> 'w state" where
  "main_loop R sourceFiles [] cs = cs"
| "main_loop R sourceFiles (target # targets) cs =
     main_loop R sourceFiles targets (main_body R sourceFiles target cs)"

section \<open>The server\<close>

text \<open>
  The functions of the server, in the order of the source. Console output, OAuth
  authorisation and the validation of the request payload are left out: the two batch
  sections are modelled from the point where the payload has been accepted:
  \<open>sourceSheet\<close> is a truthy JSON value and \<open>targetSheets\<close> an array of JSON values.
  The sheet tab and the handler name only reach the generated text.
\<close>

subsection \<open>\<open>readScriptIds\<close>\<close>

text \<open>The A1 range of the fetch; \<open>0x22\<close> below is the double quote.\<close>

definition manifest_range :: "config \<Rightarrow> string" where
  "manifest_range cfg =
     SHEET_NAME cfg @ ''!'' @ SHEET_ID_COLUMN cfg @ show_int (START_ROW cfg) @ '':''
       @ BUTTON_COORDINATES_COLUMN cfg"

definition readScriptIds :: "'w remote \<Rightarrow> config \<Rightarrow> string \<Rightarrow> (scriptIdMap, 'w) io" where
  "readScriptIds R cfg sourceSpreadsheetId =
     try_catch
       (await (api_call (SpreadsheetsGet sourceSpreadsheetId (Some ''sheets.properties.title''))
                 (spreadsheets_get R sourceSpreadsheetId (Some ''sheets.properties.title'')))
          (\<lambda>sheetNames.
             if SHEET_NAME cfg \<notin> set sheetNames
             then throw (''Sheet '' @ [CHR 0x22] @ SHEET_NAME cfg @ [CHR 0x22]
                          @ '' not found. Available: '' @ join_comma sheetNames)
             else await (api_call (ValuesGet sourceSpreadsheetId (manifest_range cfg))
                           (values_get R sourceSpreadsheetId (manifest_range cfg)))
                    (\<lambda>values. return_ok
                       (readScriptIds_rows (case values of None \<Rightarrow> [] | Some rows \<Rightarrow> rows)))))
       (\<lambda>msg. throw (''Error reading source spreadsheet: '' @ msg))"

subsection \<open>\<open>copyFunction\<close>\<close>

text \<open>
  A failed fetch of the target's content is caught and read as the empty project.
  The function returns \<open>{scriptId: targetScriptId}\<close>, modelled by the ID.
\<close>

definition copyFunction :: "'w remote \<Rightarrow> string \<Rightarrow> string \<Rightarrow> (string, 'w) io" where
  "copyFunction R sourceScriptId targetScriptId =
     try_catch
       (await (api_call (ProjectsGetContent sourceScriptId)
                 (projects_getContent R sourceScriptId)) (\<lambda>sourceContent.
          case sourceFunctionFile (case sourceContent of None \<Rightarrow> [] | Some fs \<Rightarrow> fs) of
            None \<Rightarrow> throw ''No Code.gs file found in source script project''
          | Some src \<Rightarrow>
              await (try_catch
                       (api_call (ProjectsGetContent targetScriptId)
                          (projects_getContent R targetScriptId))
                       (\<lambda>msg. return_ok (Some []))) (\<lambda>targetContent.
              await (api_call
                       (ProjectsUpdateContent targetScriptId
                          (targetFiles_pushed src (case targetContent of None \<Rightarrow> [] | Some fs \<Rightarrow> fs)))
                       (projects_updateContent R targetScriptId
                          (targetFiles_pushed src (case targetContent of None \<Rightarrow> [] | Some fs \<Rightarrow> fs))))
                (\<lambda>u. return_ok targetScriptId))))
       (\<lambda>msg. throw (''Error copying function to '' @ targetScriptId @ '': '' @ msg))"

subsection \<open>\<open>validateAndTestScriptAccess\<close>\<close>

text \<open>
  The result object: \<open>{valid: false, error, ...}\<close> or \<open>{valid: true, title}\<close>. The
  \<open>code\<close> and \<open>details\<close> of a failure are read only to choose what to log.
\<close>

datatype validation = Invalid string | Valid "string option"

text \<open>The format checks, made before any call: length at least 20 and \<open>/^[A-Za-z0-9_-]+$/\<close>.\<close>

definition validateAndTestScriptAccess :: "'w remote \<Rightarrow> string \<Rightarrow> (validation, 'w) io" where
  "validateAndTestScriptAccess R scriptId' =
     (if scriptId' = [] \<or> length scriptId' < 20 then return_ok (Invalid ''Script ID too short'')
      else if \<not> list_all isIdChar scriptId'
      then return_ok (Invalid ''Script ID contains invalid characters'')
      else try_catch
             (await (api_call (ProjectsGet scriptId') (projects_get R scriptId'))
                (\<lambda>title. return_ok (Valid title)))
             (\<lambda>msg. return_ok (Invalid msg)))"

subsection \<open>\<open>copyButtonsFromSheet\<close>\<close>

text \<open>What \<open>copyButtonsFromSheet\<close> returns (\<open>success: true\<close> is constant).\<close>

record buttonsResult =
  r_scriptId :: string
  functionName :: string
  r_copiedCount :: int
  r_buttons :: "buttonDetail list"
  r_message :: string

text \<open>
  The source text of the generated script is a template literal over the target
  spreadsheet ID, the tab, the optional handler name and the JSON of the placements.
  No property below depends on that text: it is the parameter \<open>gen\<close>.
\<close>

type_synonym generator =
  "string option \<Rightarrow> string \<Rightarrow> string option \<Rightarrow> (string \<times> int \<times> int) list \<Rightarrow> string"

text \<open>\<open>buttonImageIds.map((id, i) => ({imageId: id, col: coordinates[i][0], row: coordinates[i][1]}))\<close>,
  reached only when the two lists have the same length.\<close>

definition buttonData :: "string list \<Rightarrow> (int \<times> int) list \<Rightarrow> (string \<times> int \<times> int) list" where
  "buttonData ids coords = map (\<lambda>(id, c). (id, fst c, snd c)) (zip ids coords)"

text \<open>The files pushed: the existing ones without \<open>tempCopyButtons\<close>, then the new one.\<close>

definition tempFiles_pushed :: "string \<Rightarrow> scriptFile list \<Rightarrow> scriptFile list" where
  "tempFiles_pushed tempScriptContent existing =
     filter (\<lambda>f. name f \<noteq> ''tempCopyButtons'') existing
       @ [\<lparr>name = ''tempCopyButtons'', type = ''SERVER_JS'', source = tempScriptContent\<rparr>]"

text \<open>The execution block: its \<open>catch\<close> logs and rethrows.\<close>

definition run_copyButtons :: "'w remote \<Rightarrow> string \<Rightarrow> (executionResult, 'w) io" where
  "run_copyButtons R targetScriptId =
     await (api_call (ScriptsRun targetScriptId ''copyButtonsWithFunctions'')
              (scripts_run R targetScriptId ''copyButtonsWithFunctions'')) (\<lambda>data.
       case data of
         RunError msg \<Rightarrow> throw (''Execution failed: '' @ msg)
       | RunResponse result \<Rightarrow>
           return_ok (case result of
                        None \<Rightarrow> \<lparr>copiedCount = None, buttons = None, message = None\<rparr>
                      | Some r \<Rightarrow> r))"

definition buttonsResult_of :: "string \<Rightarrow> executionResult \<Rightarrow> buttonsResult" where
  "buttonsResult_of targetScriptId executionResult =
     \<lparr>r_scriptId = targetScriptId,
      functionName = ''copyButtonsWithFunctions'',
      r_copiedCount = (case copiedCount executionResult of None \<Rightarrow> 0 | Some n \<Rightarrow> n),
      r_buttons = (case buttons executionResult of None \<Rightarrow> [] | Some bs \<Rightarrow> bs),
      r_message = (if truthy (message executionResult) then the (message executionResult)
                   else ''Buttons copied successfully'')\<rparr>"

text \<open>\<open>scriptIdMap.get(targetSpreadsheetId)\<close>; the keys of the Map are strings.\<close>

definition map_get :: "scriptIdMap \<Rightarrow> string option \<Rightarrow> targetData option" where
  "map_get m k = (case k of None \<Rightarrow> None | Some key \<Rightarrow> m key)"

text \<open>The part of \<open>copyButtonsFromSheet\<close> after the precondition checks.\<close>

definition place_buttons ::
  "'w remote \<Rightarrow> generator \<Rightarrow> string option \<Rightarrow> string \<Rightarrow> string option \<Rightarrow> targetData
     \<Rightarrow> (buttonsResult, 'w) io" where
  "place_buttons R gen targetSpreadsheetId targetSheetTab buttonScript targetData =
     await (try_catch
              (api_call (ProjectsGetContent (scriptId targetData))
                 (projects_getContent R (scriptId targetData)))
              (\<lambda>msg. return_ok (Some []))) (\<lambda>existingContent.
     await (api_call
              (ProjectsUpdateContent (scriptId targetData)
                 (tempFiles_pushed
                    (gen targetSpreadsheetId targetSheetTab buttonScript
                       (buttonData (buttonImageIds targetData) (coordinates targetData)))
                    (case existingContent of None \<Rightarrow> [] | Some fs \<Rightarrow> fs)))
              (projects_updateContent R (scriptId targetData)
                 (tempFiles_pushed
                    (gen targetSpreadsheetId targetSheetTab buttonScript
                       (buttonData (buttonImageIds targetData) (coordinates targetData)))
                    (case existingContent of None \<Rightarrow> [] | Some fs \<Rightarrow> fs)))) (\<lambda>u.
     await (run_copyButtons R (scriptId targetData)) (\<lambda>executionResult.
     return_ok (buttonsResult_of (scriptId targetData) executionResult))))"

definition copyButtonsFromSheet ::
  "'w remote \<Rightarrow> config \<Rightarrow> generator \<Rightarrow> string \<Rightarrow> string option \<Rightarrow> string \<Rightarrow> string option
     \<Rightarrow> (buttonsResult, 'w) io" where
  "copyButtonsFromSheet R cfg gen masterSpreadsheetId targetSpreadsheetId targetSheetTab buttonScript =
     try_catch
       (await (readScriptIds R cfg masterSpreadsheetId) (\<lambda>scriptIdMap.
          case map_get scriptIdMap targetSpreadsheetId of
            None \<Rightarrow> throw (''No script ID found for target spreadsheet '' @ render targetSpreadsheetId)
          | Some targetData \<Rightarrow>
              if scriptId targetData = []
              then throw (''No script ID found for target spreadsheet '' @ render targetSpreadsheetId)
              else await (validateAndTestScriptAccess R (scriptId targetData)) (\<lambda>validation.
                case validation of
                  Invalid err \<Rightarrow>
                    throw (''Cannot access script '' @ scriptId targetData @ '': '' @ err)
                | Valid title \<Rightarrow>
                    if buttonImageIds targetData = []
                    then throw (''No button image IDs found for '' @ render targetSpreadsheetId)
                    else if coordinates targetData = []
                    then throw (''No coordinates found for '' @ render targetSpreadsheetId)
                    else if length (buttonImageIds targetData) \<noteq> length (coordinates targetData)
                    then throw (''Mismatch: '' @ show_nat (length (buttonImageIds targetData))
                                 @ '' button IDs but ''
                                 @ show_nat (length (coordinates targetData))
                                 @ '' coordinate pairs'')
                    else place_buttons R gen targetSpreadsheetId targetSheetTab buttonScript
                           targetData)))
       (\<lambda>msg. throw (''Error copying buttons to '' @ render targetSpreadsheetId @ '': '' @ msg))"

subsection \<open>The POST handler: the two batch loops\<close>

text \<open>
  An entry of \<open>details\<close>: a function copy that succeeded, a button copy that succeeded,
  a target that failed, or the single entry pushed when the manifest cannot be read.
\<close>

datatype detail =
    FunctionCopied "string option" string
  | ButtonsCopied "string option" buttonsResult
  | TargetFailed "string option" string
  | ReadFailed string

fun status :: "detail \<Rightarrow> string option" where
  "status (FunctionCopied sid scr) = Some ''success''"
| "status (ButtonsCopied sid res) = Some ''success''"
| "status (TargetFailed sid msg) = Some ''failed''"
| "status (ReadFailed msg) = None"

fun detail_spreadsheetId :: "detail \<Rightarrow> string option" where
  "detail_spreadsheetId (FunctionCopied sid scr) = sid"
| "detail_spreadsheetId (ButtonsCopied sid res) = sid"
| "detail_spreadsheetId (TargetFailed sid msg) = sid"
| "detail_spreadsheetId (ReadFailed msg) = None"

record summary =
  total :: nat
  successful :: nat
  failed :: nat
  details :: "detail list"

text \<open>The \<open>try\<close> block of the \<open>copyFunctions\<close> loop, up to the result of \<open>copyFunction\<close>.\<close>

definition copyFunctions_try ::
  "'w remote \<Rightarrow> config \<Rightarrow> scriptIdMap \<Rightarrow> string option \<Rightarrow> (string, 'w) io" where
  "copyFunctions_try R cfg scriptIdMap targetSpreadsheetId =
     (case map_get scriptIdMap targetSpreadsheetId of
        None \<Rightarrow> throw (''No script ID found for '' @ render targetSpreadsheetId)
      | Some targetData \<Rightarrow>
          if scriptId targetData = []
          then throw (''No script ID found for '' @ render targetSpreadsheetId)
          else copyFunction R (SOURCE_SCRIPT_ID cfg) (scriptId targetData))"

text \<open>
  One iteration. The ID is resolved before the \<open>try\<close>, so an error of the resolution is
  not caught: it leaves the loop and the handler, and no response is built. The \<open>try\<close>
  block pushes the success entry, the \<open>catch\<close> block the failure entry.
\<close>

definition copyFunctions_body ::
  "'w remote \<Rightarrow> config \<Rightarrow> scriptIdMap \<Rightarrow> json \<Rightarrow> summary \<Rightarrow> (summary, 'w) io" where
  "copyFunctions_body R cfg scriptIdMap target response =
     (case extractSpreadsheetId_value target of
        Inl typeError \<Rightarrow> throw typeError
      | Inr targetSpreadsheetId \<Rightarrow>
          try_catch
            (await (copyFunctions_try R cfg scriptIdMap targetSpreadsheetId) (\<lambda>scr.
               return_ok
                 (response\<lparr>successful := successful response + 1,
                            details := details response
                                         @ [FunctionCopied targetSpreadsheetId scr]\<rparr>)))
            (\<lambda>msg.
               return_ok
                 (response\<lparr>failed := failed response + 1,
                            details := details response
                                         @ [TargetFailed targetSpreadsheetId msg]\<rparr>)))"

fun copyFunctions_loop ::
  "'w remote \<Rightarrow> config \<Rightarrow> scriptIdMap \<Rightarrow> json list \<Rightarrow> summary \<Rightarrow> (summary, 'w) io" where
  "copyFunctions_loop R cfg scriptIdMap [] response = return_ok response"
| "copyFunctions_loop R cfg scriptIdMap (target # targets) response =
     await (copyFunctions_body R cfg scriptIdMap target response)
       (\<lambda>response'. copyFunctions_loop R cfg scriptIdMap targets response')"

text \<open>
  How a section ends when its computation does not throw: the handler has answered 500
  with the summary (the manifest could not be read), or the section has run to its end.
\<close>

datatype section_result = Responded500 summary | Completed summary

text \<open>
  The \<open>copyFunctions\<close> section when enabled. The resolution of \<open>sourceSheet\<close> is outside
  every \<open>try\<close> as well.
\<close>

definition process_copyFunctions ::
  "'w remote \<Rightarrow> config \<Rightarrow> json \<Rightarrow> json list \<Rightarrow> (section_result, 'w) io" where
  "process_copyFunctions R cfg functionsSourceSheet functionsTargetSheets =
     (case extractSpreadsheetId_value functionsSourceSheet of
        Inl typeError \<Rightarrow> throw typeError
      | Inr sourceSpreadsheetId \<Rightarrow>
          (\<lambda>s. case readScriptIds R cfg (render sourceSpreadsheetId) s of
                 (Inl msg, s') \<Rightarrow>
                   (Inr (Responded500
                           \<lparr>total = length functionsTargetSheets, successful = 0,
                            failed = length functionsTargetSheets,
                            details = [ReadFailed (''Failed to read script IDs: '' @ msg)]\<rparr>), s')
               | (Inr scriptIdMap, s') \<Rightarrow>
                   await (copyFunctions_loop R cfg scriptIdMap functionsTargetSheets
                            \<lparr>total = length functionsTargetSheets, successful = 0, failed = 0,
                             details = []\<rparr>)
                     (\<lambda>response. return_ok (Completed response)) s'))"

definition copyButtons_body ::
  "'w remote \<Rightarrow> config \<Rightarrow> generator \<Rightarrow> string \<Rightarrow> string \<Rightarrow> string option \<Rightarrow> json
     \<Rightarrow> summary \<Rightarrow> (summary, 'w) io" where
  "copyButtons_body R cfg gen masterSpreadsheetId targetSheetTab buttonScript target response =
     (case extractSpreadsheetId_value target of
        Inl typeError \<Rightarrow> throw typeError
      | Inr targetSpreadsheetId \<Rightarrow>
          try_catch
            (await (copyButtonsFromSheet R cfg gen masterSpreadsheetId targetSpreadsheetId
                      targetSheetTab buttonScript) (\<lambda>res.
               return_ok
                 (response\<lparr>successful := successful response + 1,
                            details := details response
                                         @ [ButtonsCopied targetSpreadsheetId res]\<rparr>)))
            (\<lambda>msg.
               return_ok
                 (response\<lparr>failed := failed response + 1,
                            details := details response
                                         @ [TargetFailed targetSpreadsheetId msg]\<rparr>)))"

fun copyButtons_loop ::
  "'w remote \<Rightarrow> config \<Rightarrow> generator \<Rightarrow> string \<Rightarrow> string \<Rightarrow> string option \<Rightarrow> json list
     \<Rightarrow> summary \<Rightarrow> (summary, 'w) io" where
  "copyButtons_loop R cfg gen master tab buttonScript [] response = return_ok response"
| "copyButtons_loop R cfg gen master tab buttonScript (target # targets) response =
     await (copyButtons_body R cfg gen master tab buttonScript target response)
       (\<lambda>response'. copyButtons_loop R cfg gen master tab buttonScript targets response')"

text \<open>The \<open>copyButtons\<close> section when enabled.\<close>

definition process_copyButtons ::
  "'w remote \<Rightarrow> config \<Rightarrow> generator \<Rightarrow> json \<Rightarrow> json list \<Rightarrow> string \<Rightarrow> string option
     \<Rightarrow> (summary, 'w) io" where
  "process_copyButtons R cfg gen buttonsSourceSheet buttonsTargetSheets targetSheetTab buttonScript =
     (case extractSpreadsheetId_value buttonsSourceSheet of
        Inl typeError \<Rightarrow> throw typeError
      | Inr masterSpreadsheetId \<Rightarrow>
          copyButtons_loop R cfg gen (render masterSpreadsheetId) targetSheetTab buttonScript
            buttonsTargetSheets
            \<lparr>total = length buttonsTargetSheets, successful = 0, failed = 0, details = []\<rparr>)"

section \<open>A reference remote: script projects as a store\<close>

text \<open>
  A remote to run the model on: the world is the store of script projects, keyed by
  script ID. Reading a project returns its files, writing replaces them all (the
  remote's documented semantics); both fail on an unknown ID. Every spreadsheet has the
  one tab \<open>TVDE Users\<close> (the server's default sheet name) holding the given rows, no
  script is found under a spreadsheet, and an execution returns no result payload.
\<close>

definition store_remote :: "row list \<Rightarrow> (string \<rightharpoonup> scriptFile list) remote" where
  "store_remote rows =
     \<lparr>spreadsheets_get = (\<lambda>sid fields w. (Inr [''TVDE Users''], w)),
      values_get = (\<lambda>sid range w. (Inr (Some rows), w)),
      files_list = (\<lambda>q w. (Inr (Some []), w)),
      projects_get = (\<lambda>scr w. case w scr of
                                None \<Rightarrow> (Inl ''Requested entity was not found.'', w)
                              | Some fs \<Rightarrow> (Inr (Some ''Untitled project''), w)),
      projects_getContent = (\<lambda>scr w. case w scr of
                                None \<Rightarrow> (Inl ''Requested entity was not found.'', w)
                              | Some fs \<Rightarrow> (Inr (Some fs), w)),
      projects_updateContent = (\<lambda>scr fs w. case w scr of
                                None \<Rightarrow> (Inl ''Requested entity was not found.'', w)
                              | Some old \<Rightarrow> (Inr (), w(scr \<mapsto> fs))),
      scripts_run = (\<lambda>scr fn w. (Inr (RunResponse None), w))\<rparr>"

definition default_config :: config where
  "default_config =
     \<lparr>SHEET_NAME = ''TVDE Users'', SHEET_ID_COLUMN = ''D'', BUTTON_COORDINATES_COLUMN = ''G'',
      START_ROW = 2, SOURCE_SCRIPT_ID = ''your_source_script_id''\<rparr>"

subsection \<open>Concrete inputs\<close>

text \<open>
  A manifest of five rows and a store with the source project and the project of
  \<open>script_A\<close>; \<open>script_B\<close> names no project. Rows \<open>T1\<close> and \<open>T5\<close> have two image
  IDs for one coordinate pair, row \<open>T4\<close> has an image ID and no coordinates.
\<close>

definition script_A :: string where
  "script_A = ''AAAAAAAAAAAAAAAAAAAAAAAA''"

definition script_B :: string where
  "script_B = ''BBBBBBBBBBBBBBBBBBBBBBBB''"

definition demo_rows :: "row list" where
  "demo_rows =
     [[''T1'', script_A, ''img1,img2'', ''1,2''],
      [''T2'', script_B, ''img1'', ''1,2''],
      [''T3'', script_A, ''img1'', ''1,2''],
      [''T4'', script_A, ''img1''],
      [''T5'', script_B, ''img1,img2'', ''1,2'']]"

definition manifest_file :: scriptFile where
  "manifest_file = \<lparr>name = ''appsscript'', type = ''JSON'', source = ''{}''\<rparr>"

definition page_file :: scriptFile where
  "page_file = \<lparr>name = ''Page'', type = ''HTML'', source = ''<p>hello</p>''\<rparr>"

definition old_code_file :: scriptFile where
  "old_code_file = \<lparr>name = ''Code'', type = ''SERVER_JS'', source = ''function old(){}''\<rparr>"

definition new_code_file :: scriptFile where
  "new_code_file = \<lparr>name = ''Code'', type = ''SERVER_JS'', source = ''function x(){}''\<rparr>"

definition demo_store :: "string \<rightharpoonup> scriptFile list" where
  "demo_store =
     [''your_source_script_id'' \<mapsto> [manifest_file, new_code_file],
      script_A \<mapsto> [manifest_file, old_code_file, page_file]]"

definition demo_gen :: generator where
  "demo_gen tid tab handler placements = ''function copyButtonsWithFunctions() {}''"

section \<open>What a batch summary must satisfy\<close>

text \<open>The ID an entry carries for a target whose resolution returns.\<close>

definition resolved_id :: "json \<Rightarrow> string option" where
  "resolved_id t = (case extractSpreadsheetId_value t of Inl e \<Rightarrow> None | Inr sid \<Rightarrow> sid)"

text \<open>
  One entry per target, in input order, each a success or a failure, and the counters
  counting them: \<open>total = successful + failed\<close>.
\<close>

definition batch_summary_ok :: "json list \<Rightarrow> summary \<Rightarrow> bool" where
  "batch_summary_ok targets resp \<longleftrightarrow>
     total resp = length targets
     \<and> length (details resp) = length targets
     \<and> map detail_spreadsheetId (details resp) = map resolved_id targets
     \<and> list_all (\<lambda>d. status d = Some ''success'' \<or> status d = Some ''failed'') (details resp)
     \<and> successful resp = length (filter (\<lambda>d. status d = Some ''success'') (details resp))
     \<and> failed resp = length (filter (\<lambda>d. status d = Some ''failed'') (details resp))
     \<and> total resp = successful resp + failed resp"

text \<open>What a loop has added to a summary after the targets \<open>ts\<close>.\<close>

definition extends_by :: "summary \<Rightarrow> json list \<Rightarrow> summary \<Rightarrow> bool" where
  "extends_by r ts r' \<longleftrightarrow>
     (\<exists>new. details r' = details r @ new
        \<and> map detail_spreadsheetId new = map resolved_id ts
        \<and> list_all (\<lambda>d. status d = Some ''success'' \<or> status d = Some ''failed'') new
        \<and> successful r' = successful r + length (filter (\<lambda>d. status d = Some ''success'') new)
        \<and> failed r' = failed r + length (filter (\<lambda>d. status d = Some ''failed'') new)
        \<and> total r' = total r)"

section \<open>Properties\<close>

subsection \<open>Identifier Resolver\<close>

lemma isIdChar_alnum [simp]:
  "isIdChar CHR ''A''" "isIdChar CHR ''B''" "isIdChar CHR ''C''"
  "isIdChar CHR ''1''" "isIdChar CHR ''2''" "isIdChar CHR ''3''"
  "\<not> isIdChar CHR ''/''"
  by (simp_all add: isIdChar_def)

text \<open>
  C7. \<open>extractSpreadsheetId\<close> returns the canonical ID \<open>ABC123\<close> for the three
  documented reference forms: the full URL, the path fragment and the bare ID.
\<close>

theorem extractSpreadsheetId_three_forms:
  "extractSpreadsheetId (Some ''https://docs.google.com/spreadsheets/d/ABC123/edit'') = Some ''ABC123''
   \<and> extractSpreadsheetId (Some ''/spreadsheets/d/ABC123'') = Some ''ABC123''
   \<and> extractSpreadsheetId (Some ''ABC123'') = Some ''ABC123''"
  by (simp add: extractSpreadsheetId_def patterns_def capture_at_def trim_def isWhiteSpace_def)

subsection \<open>Manifest Reader\<close>

lemma truthy_iff: "truthy x \<longleftrightarrow> (\<exists>s. x = Some s \<and> s \<noteq> [])"
  by (cases x) auto

lemma coordinatePairs_loop_pair_tokens:
  "coordinatePairs_loop coords i pairs = pairs @ pair_tokens (drop i coords)"
proof (induction coords i pairs rule: coordinatePairs_loop.induct)
  case (1 coords i pairs)
  show ?case
  proof (cases "i < length coords")
    case False
    then show ?thesis by (simp add: coordinatePairs_loop.simps)
  next
    case True
    note lt = this
    show ?thesis
    proof (cases "i + 1 < length coords")
      case False
      with lt have "drop i coords = [coords ! i]"
        by (metis Cons_nth_drop_Suc Suc_eq_plus1 drop_all not_less)
      moreover from False have "drop (i + 2) coords = []" by simp
      ultimately show ?thesis
        using lt False "1.IH" [OF lt] by (subst coordinatePairs_loop.simps) simp
    next
      case True
      have d: "drop i coords = coords ! i # coords ! (i + 1) # drop (i + 2) coords"
        using lt True by (metis Cons_nth_drop_Suc Suc_eq_plus1 add_2_eq_Suc')
      show ?thesis
        using lt True "1.IH" [OF lt]
        by (subst coordinatePairs_loop.simps) (simp add: d split: option.splits)
    qed
  qed
qed

lemma coordinatePairs_pair_tokens: "coordinatePairs coords = pair_tokens coords"
  by (simp add: coordinatePairs_def coordinatePairs_loop_pair_tokens)

lemma pair_tokens_append:
  "even (length pre) \<Longrightarrow> pair_tokens (pre @ post) = pair_tokens pre @ pair_tokens post"
  by (induction pre rule: pair_tokens.induct) auto

lemma parseInt_examples:
  "parseInt ''1'' = Some 1" "parseInt ''2'' = Some 2" "parseInt ''3'' = Some 3"
  "parseInt ''4'' = Some 4" "parseInt ''x'' = None"
  by code_simp+

lemma split_trim_filter_examples:
  "split_trim_filter (Some ''img1,img2'') = [''img1'', ''img2'']"
  "split_trim_filter (Some ''1,2,3,4'') = [''1'', ''2'', ''3'', ''4'']"
  "split_trim_filter (Some ''1,2,3'') = [''1'', ''2'', ''3'']"
  "split_trim_filter (Some ''1,x,3,4'') = [''1'', ''x'', ''3'', ''4'']"
  by (simp_all add: split_trim_filter_def trim_def isWhiteSpace_def)

text \<open>
  C8. A row with asset cell \<open>img1,img2\<close> and coordinate cell \<open>1,2,3,4\<close> decodes to
  the asset IDs \<open>[img1, img2]\<close> and the coordinates \<open>[(1,2), (3,4)]\<close>; a row with
  coordinate cell \<open>1,2,3\<close> decodes to \<open>[(1,2)]\<close>. In general a trailing token with
  no partner is dropped, whatever it is.
\<close>

theorem manifest_row_decoding:
  "row_buttonImageIds [a, b, ''img1,img2'', ''1,2,3,4''] = [''img1'', ''img2'']
   \<and> row_coordinatePairs [a, b, ''img1,img2'', ''1,2,3,4''] = [(1, 2), (3, 4)]
   \<and> row_coordinatePairs [a, b, c, ''1,2,3''] = [(1, 2)]
   \<and> (even (length pre) \<longrightarrow> coordinatePairs (pre @ [t]) = coordinatePairs pre)"
  by (simp add: row_buttonImageIds_def row_coordinatePairs_def cell_def
      split_trim_filter_examples coordinatePairs_pair_tokens parseInt_examples
      pair_tokens_append)

theorem manifest_row_decoding_witness:
  "row_coordinatePairs [''T1'', ''S1'', ''img1,img2'', ''1,2,3,4''] = [(1, 2), (3, 4)]
   \<and> even (length [''1'', ''2''])
   \<and> coordinatePairs ([''1'', ''2''] @ [''junk'']) = coordinatePairs [''1'', ''2'']"
  using manifest_row_decoding [of "''T1''" "''S1''" "''img1,img2''" "[''1'', ''2'']" "''junk''"]
  by simp

text \<open>
  C10. A pair with a token that \<open>parseInt\<close> cannot read is dropped wherever it stands,
  and the pairs before and after it are decoded as if it were not there; the coordinate
  cell \<open>1,x,3,4\<close> decodes to \<open>[(3,4)]\<close>.
\<close>

theorem malformed_pair_dropped:
  assumes "even (length pre)" and "parseInt a = None \<or> parseInt b = None"
  shows "coordinatePairs (pre @ a # b # post) = coordinatePairs pre @ coordinatePairs post
         \<and> row_coordinatePairs [x, y, z, ''1,x,3,4''] = [(3, 4)]"
proof -
  have "pair_tokens (a # b # post) = pair_tokens post"
    using assms(2) by (auto split: option.splits)
  then have "coordinatePairs (pre @ a # b # post) = coordinatePairs pre @ coordinatePairs post"
    using assms(1) by (simp add: coordinatePairs_pair_tokens pair_tokens_append)
  moreover have "row_coordinatePairs [x, y, z, ''1,x,3,4''] = [(3, 4)]"
    by (simp add: row_coordinatePairs_def cell_def
      split_trim_filter_examples coordinatePairs_pair_tokens parseInt_examples)
  ultimately show ?thesis by simp
qed

theorem malformed_pair_dropped_witness:
  "even (length [''1'', ''2'']) \<and> parseInt ''x'' = None
   \<and> coordinatePairs ([''1'', ''2''] @ ''3'' # ''x'' # [''3'', ''4'']) = [(1, 2), (3, 4)]"
  using malformed_pair_dropped [of "[''1'', ''2'']" "''3''" "''x''" "[''3'', ''4'']"]
  by (simp add: parseInt_examples coordinatePairs_pair_tokens)

lemma forEach_rows_append:
  "forEach_rows (xs @ ys) m = forEach_rows ys (forEach_rows xs m)"
  by (induction xs arbitrary: m) simp_all

lemma forEach_rows_other_keys:
  "\<forall>r \<in> set rows. extractSpreadsheetId (cell r 0) = Some k \<longrightarrow> \<not> truthy (row_scriptId r)
   \<Longrightarrow> forEach_rows rows m k = m k"
proof (induction rows arbitrary: m)
  case Nil
  then show ?case by simp
next
  case (Cons r rows)
  have "row_step r m k = m k"
    using Cons.prems by (auto simp: row_step_def Let_def truthy_iff)
  with Cons show ?case by simp
qed

text \<open>
  C9. When several accepted rows resolve to the same spreadsheet ID, the Map returned by
  \<open>readScriptIds\<close> holds the data of the last of them: if row \<open>r\<close> is accepted under
  key \<open>k\<close> and no later row is accepted under \<open>k\<close>, the Map sends \<open>k\<close> to the
  script ID, image IDs and coordinates of \<open>r\<close>, whatever the earlier rows were.
\<close>

theorem readScriptIds_last_row_wins:
  assumes "extractSpreadsheetId (cell r 0) = Some k" and "k \<noteq> []"
    and "truthy (row_scriptId r)"
    and "\<forall>r' \<in> set post. extractSpreadsheetId (cell r' 0) = Some k \<longrightarrow> \<not> truthy (row_scriptId r')"
  shows "readScriptIds_rows (pre @ r # post) k =
           Some \<lparr>scriptId = the (row_scriptId r),
                 buttonImageIds = row_buttonImageIds r,
                 coordinates = row_coordinatePairs r\<rparr>"
proof -
  have "row_step r (forEach_rows pre Map.empty) k =
          Some \<lparr>scriptId = the (row_scriptId r),
                 buttonImageIds = row_buttonImageIds r,
                 coordinates = row_coordinatePairs r\<rparr>"
    using assms(1-3) by (simp add: row_step_def Let_def)
  then show ?thesis
    using forEach_rows_other_keys [OF assms(4)]
    by (simp add: readScriptIds_rows_def forEach_rows_append)
qed

lemma extractSpreadsheetId_bare_examples:
  "extractSpreadsheetId (Some ''T1'') = Some ''T1''"
  "extractSpreadsheetId (Some ''T2'') = Some ''T2''"
  by (simp_all add: extractSpreadsheetId_def trim_def isWhiteSpace_def)

theorem readScriptIds_last_row_wins_witness:
  "readScriptIds_rows
     ([[''T1'', ''S1'', ''img1'', ''1,2'']] @ [''T1'', ''S2'', ''img1,img2'', ''1,2,3,4'']
        # [[''T2'', ''S3''], [''T1'']]) ''T1''
   = Some \<lparr>scriptId = ''S2'', buttonImageIds = [''img1'', ''img2''],
            coordinates = [(1, 2), (3, 4)]\<rparr>"
  using readScriptIds_last_row_wins
    [of "[''T1'', ''S2'', ''img1,img2'', ''1,2,3,4'']" "''T1''" "[[''T2'', ''S3''], [''T1'']]"
        "[[''T1'', ''S1'', ''img1'', ''1,2'']]"]
  by (simp add: cell_def extractSpreadsheetId_bare_examples row_scriptId_def trim_def
      isWhiteSpace_def row_buttonImageIds_def row_coordinatePairs_def
      split_trim_filter_examples coordinatePairs_pair_tokens parseInt_examples)

lemma forEach_rows_dom:
  "k \<in> dom (forEach_rows rows m) \<longleftrightarrow>
     k \<in> dom m \<or> (\<exists>r \<in> set rows. extractSpreadsheetId (cell r 0) = Some k \<and> k \<noteq> []
                      \<and> truthy (row_scriptId r))"
proof (induction rows arbitrary: m)
  case Nil
  then show ?case by simp
next
  case (Cons r rows)
  have "k \<in> dom (row_step r m) \<longleftrightarrow>
          k \<in> dom m \<or> (extractSpreadsheetId (cell r 0) = Some k \<and> k \<noteq> [] \<and> truthy (row_scriptId r))"
    by (auto simp: row_step_def Let_def truthy_iff)
  with Cons.IH [of "row_step r m"] show ?case by auto
qed

text \<open>
  C2, as stated, fails on \<open>readScriptIds\<close>: a row whose spreadsheet ID resolves to
  \<open>T1\<close> and whose script ID cell is empty leaves the Map empty.
\<close>

theorem readScriptIds_drops_row_without_scriptId:
  "extractSpreadsheetId (cell [''T1'', [], ''img1'', ''1,2''] 0) = Some ''T1''
   \<and> readScriptIds_rows [[''T1'', [], ''img1'', ''1,2'']] = Map.empty"
  by (simp add: readScriptIds_rows_def row_step_def row_scriptId_def cell_def
      extractSpreadsheetId_bare_examples)

text \<open>
  C2, amended. \<open>readSheetIds\<close> (\<open>index.js\<close>) keeps every row whose resolved
  spreadsheet ID is non-empty, with or without a script ID. \<open>readScriptIds\<close> (server)
  records a key exactly when some row resolves to it with a non-empty resolved ID and a
  non-empty trimmed script ID: a row without a script ID is not recorded.
\<close>

theorem manifest_acceptance:
  "(\<forall>r \<in> set rows. truthy (extractSpreadsheetId (cell r 0)) \<longrightarrow>
        sheetItem_of r \<in> set (readSheetIds_rows rows))
   \<and> (k \<in> dom (readScriptIds_rows rows) \<longleftrightarrow>
        (\<exists>r \<in> set rows. extractSpreadsheetId (cell r 0) = Some k \<and> k \<noteq> []
            \<and> truthy (row_scriptId r)))"
  by (simp add: readSheetIds_rows_def sheetItem_of_def readScriptIds_rows_def forEach_rows_dom)

theorem manifest_acceptance_witness:
  "\<lparr>item_spreadsheetId = Some ''T1'', item_scriptId = None\<rparr>
      \<in> set (readSheetIds_rows [[''T1''], [''T2'', ''S2'']])
   \<and> ''T2'' \<in> dom (readScriptIds_rows [[''T1''], [''T2'', ''S2'']])
   \<and> ''T1'' \<notin> dom (readScriptIds_rows [[''T1''], [''T2'', ''S2'']])"
  using manifest_acceptance [of "[[''T1''], [''T2'', ''S2'']]" "''T2''"]
    manifest_acceptance [of "[[''T1''], [''T2'', ''S2'']]" "''T1''"]
  by (simp add: cell_def extractSpreadsheetId_bare_examples row_scriptId_def sheetItem_of_def
      trim_def isWhiteSpace_def)

subsection \<open>Content Transfer Engine\<close>

lemmas io_defs = api_call_def return_ok_def throw_def await_def try_catch_def




lemma updatedFiles_idem: "updatedFiles src (updatedFiles src existing) = updatedFiles src existing"
  by (induction existing) (auto simp: updatedFiles_def)

lemma targetFiles_pushed_idem:
  "source c' = source c \<Longrightarrow>
   targetFiles_pushed c' (targetFiles_pushed c T) = targetFiles_pushed c T"
  by (simp add: targetFiles_pushed_def)

lemma sourceFunctionFile_pushed:
  "sourceFunctionFile (targetFiles_pushed c T) =
     Some \<lparr>name = ''Code'', type = ''SERVER_JS'', source = source c\<rparr>"
  by (induction T) (auto simp: sourceFunctionFile_def targetFiles_pushed_def)

lemma copyFunction_store_world:
  "snd (snd (copyFunction (store_remote rows) src tgt s)) =
     (case snd s src of
        None \<Rightarrow> snd s
      | Some S \<Rightarrow>
          (case sourceFunctionFile S of
             None \<Rightarrow> snd s
           | Some c \<Rightarrow>
               (case snd s tgt of
                  None \<Rightarrow> snd s
                | Some T \<Rightarrow> (snd s)(tgt \<mapsto> targetFiles_pushed c T))))"
  by (cases s) (simp add: copyFunction_def io_defs store_remote_def split: option.splits)

lemma updateScriptContent_store_world:
  "snd (snd (updateScriptContent (store_remote rows) tgt sourceFiles s)) =
     (case snd s tgt of
        None \<Rightarrow> snd s
      | Some T \<Rightarrow>
          (case sourceCodeFile sourceFiles of
             None \<Rightarrow> snd s
           | Some c \<Rightarrow> (snd s)(tgt \<mapsto> updatedFiles c T)))"
  by (cases s) (simp add: updateScriptContent_def io_defs store_remote_def split: option.splits)

text \<open>
  C5. On a remote that stores what is pushed, running the transfer twice in a row leaves
  every script project as running it once does: for \<open>copyFunction\<close> (whatever the source
  and target IDs, also when they are the same project) and for \<open>updateScriptContent\<close> with a
  fixed source file list.
\<close>

theorem transferCode_idempotent:
  "snd (snd (copyFunction (store_remote rows) src tgt
               (snd (copyFunction (store_remote rows) src tgt s))))
     = snd (snd (copyFunction (store_remote rows) src tgt s))
   \<and> snd (snd (updateScriptContent (store_remote rows) tgt sourceFiles
               (snd (updateScriptContent (store_remote rows) tgt sourceFiles s))))
     = snd (snd (updateScriptContent (store_remote rows) tgt sourceFiles s))"
proof
  show "snd (snd (copyFunction (store_remote rows) src tgt
               (snd (copyFunction (store_remote rows) src tgt s))))
     = snd (snd (copyFunction (store_remote rows) src tgt s))"
    unfolding copyFunction_store_world [of rows src tgt "snd (copyFunction (store_remote rows) src tgt s)"]
    unfolding copyFunction_store_world [of rows src tgt s]
    by (auto split: option.splits simp: sourceFunctionFile_pushed targetFiles_pushed_idem)
  show "snd (snd (updateScriptContent (store_remote rows) tgt sourceFiles
               (snd (updateScriptContent (store_remote rows) tgt sourceFiles s))))
     = snd (snd (updateScriptContent (store_remote rows) tgt sourceFiles s))"
    unfolding updateScriptContent_store_world [of rows tgt sourceFiles "snd (updateScriptContent (store_remote rows) tgt sourceFiles s)"]
    unfolding updateScriptContent_store_world [of rows tgt sourceFiles s]
    by (auto split: option.splits simp: updatedFiles_idem)
qed

theorem transferCode_idempotent_witness:
  "snd (snd (copyFunction (store_remote []) ''your_source_script_id'' script_A
               (snd (copyFunction (store_remote []) ''your_source_script_id'' script_A
                       ([], demo_store))))) script_A
     = Some [manifest_file, page_file, new_code_file]
   \<and> snd (snd (updateScriptContent (store_remote []) script_A [manifest_file, new_code_file]
               (snd (updateScriptContent (store_remote []) script_A [manifest_file, new_code_file]
                       ([], demo_store))))) script_A
     = Some [manifest_file, new_code_file, page_file]
   \<and> demo_store script_A = Some [manifest_file, old_code_file, page_file]"
  using transferCode_idempotent
    [of "[]" "''your_source_script_id''" script_A "([], demo_store)" "[manifest_file, new_code_file]"]
  by (simp add: copyFunction_store_world updateScriptContent_store_world demo_store_def
      script_A_def sourceFunctionFile_def sourceCodeFile_def targetFiles_pushed_def
      updatedFiles_def manifest_file_def new_code_file_def old_code_file_def page_file_def
      Codigo_def)

lemma updatedFiles_keeps:
  "f \<in> set existing \<Longrightarrow> name f \<noteq> ''Code'' \<Longrightarrow> name f \<noteq> Codigo \<Longrightarrow> type f \<noteq> ''SERVER_JS''
   \<Longrightarrow> f \<in> set (updatedFiles c existing)"
  by (force simp: updatedFiles_def image_iff)

lemma targetFiles_pushed_keeps:
  "f \<in> set existing \<Longrightarrow> name f \<noteq> ''Code'' \<Longrightarrow> f \<in> set (targetFiles_pushed c existing)"
  by (simp add: targetFiles_pushed_def)

text \<open>
  C4. A file of the fetched target list whose name is neither \<open>Code\<close> nor the alias and
  whose type is not \<open>SERVER_JS\<close> is in the list pushed by the one
  \<open>updateContent\<close> call, unchanged: for \<open>updateScriptContent\<close> when the target's
  content is fetched and the source has a code file, and for \<open>copyFunction\<close> when both
  fetches succeed and the source has its code file.
\<close>

theorem transferCode_frame:
  assumes "f \<in> set existing" and "name f \<noteq> ''Code''" and "name f \<noteq> Codigo"
    and "type f \<noteq> ''SERVER_JS''"
  shows "(projects_getContent R tgt (snd s) = (Inr (Some existing), w1)
            \<and> sourceCodeFile sourceFiles = Some c \<longrightarrow>
          (\<exists>pushed. fst (snd (updateScriptContent R tgt sourceFiles s))
                       = fst s @ [ProjectsGetContent tgt, ProjectsUpdateContent tgt pushed]
                     \<and> f \<in> set pushed))
       \<and> (projects_getContent R srcId (snd s) = (Inr srcContent, w1)
            \<and> sourceFunctionFile (case srcContent of None \<Rightarrow> [] | Some fs \<Rightarrow> fs) = Some c'
            \<and> projects_getContent R tgt w1 = (Inr (Some existing), w2) \<longrightarrow>
          (\<exists>pushed. fst (snd (copyFunction R srcId tgt s))
                       = fst s @ [ProjectsGetContent srcId, ProjectsGetContent tgt,
                                  ProjectsUpdateContent tgt pushed]
                     \<and> f \<in> set pushed))"
proof (intro conjI impI)
  assume h: "projects_getContent R tgt (snd s) = (Inr (Some existing), w1)
            \<and> sourceCodeFile sourceFiles = Some c"
  have "fst (snd (updateScriptContent R tgt sourceFiles s))
          = fst s @ [ProjectsGetContent tgt, ProjectsUpdateContent tgt (updatedFiles c existing)]"
    using h by (simp add: updateScriptContent_def io_defs split: prod.splits sum.splits)
  then show "\<exists>pushed. fst (snd (updateScriptContent R tgt sourceFiles s))
                       = fst s @ [ProjectsGetContent tgt, ProjectsUpdateContent tgt pushed]
                     \<and> f \<in> set pushed"
    using updatedFiles_keeps [OF assms] by blast
next
  assume h: "projects_getContent R srcId (snd s) = (Inr srcContent, w1)
            \<and> sourceFunctionFile (case srcContent of None \<Rightarrow> [] | Some fs \<Rightarrow> fs) = Some c'
            \<and> projects_getContent R tgt w1 = (Inr (Some existing), w2)"
  have "fst (snd (copyFunction R srcId tgt s))
          = fst s @ [ProjectsGetContent srcId, ProjectsGetContent tgt,
                     ProjectsUpdateContent tgt (targetFiles_pushed c' existing)]"
    using h by (simp add: copyFunction_def io_defs split: prod.splits sum.splits)
  then show "\<exists>pushed. fst (snd (copyFunction R srcId tgt s))
                       = fst s @ [ProjectsGetContent srcId, ProjectsGetContent tgt,
                                  ProjectsUpdateContent tgt pushed]
                     \<and> f \<in> set pushed"
    using targetFiles_pushed_keeps [OF assms(1,2)] by blast
qed

theorem transferCode_frame_witness:
  "(\<exists>pushed. fst (snd (updateScriptContent (store_remote []) script_A
                         [manifest_file, new_code_file] ([], demo_store)))
               = [ProjectsGetContent script_A, ProjectsUpdateContent script_A pushed]
             \<and> page_file \<in> set pushed)
   \<and> (\<exists>pushed. fst (snd (copyFunction (store_remote []) ''your_source_script_id'' script_A
                           ([], demo_store)))
               = [ProjectsGetContent ''your_source_script_id'', ProjectsGetContent script_A,
                  ProjectsUpdateContent script_A pushed]
             \<and> page_file \<in> set pushed)"
proof -
  let ?existing = "[manifest_file, old_code_file, page_file]"
  have a: "page_file \<in> set ?existing" "name page_file \<noteq> ''Code''" "name page_file \<noteq> Codigo"
    "type page_file \<noteq> ''SERVER_JS''"
    by (simp_all add: page_file_def Codigo_def)
  have g1: "projects_getContent (store_remote []) script_A (snd ([], demo_store))
              = (Inr (Some ?existing), demo_store)"
    by (simp add: store_remote_def demo_store_def)
  have g2: "projects_getContent (store_remote []) ''your_source_script_id'' (snd ([], demo_store))
              = (Inr (Some [manifest_file, new_code_file]), demo_store)"
    by (simp add: store_remote_def demo_store_def script_A_def)
  have g3: "projects_getContent (store_remote []) script_A demo_store
              = (Inr (Some ?existing), demo_store)"
    by (simp add: store_remote_def demo_store_def)
  have f1: "sourceCodeFile [manifest_file, new_code_file] = Some new_code_file"
    by (simp add: sourceCodeFile_def manifest_file_def new_code_file_def Codigo_def)
  have f2: "sourceFunctionFile (case Some [manifest_file, new_code_file] of
                                  None \<Rightarrow> [] | Some fs \<Rightarrow> fs) = Some new_code_file"
    by (simp add: sourceFunctionFile_def manifest_file_def new_code_file_def)
  show ?thesis
    using transferCode_frame [OF a, where R = "store_remote []" and tgt = script_A
        and s = "([], demo_store)" and ?w1.0 = demo_store
        and sourceFiles = "[manifest_file, new_code_file]" and c = new_code_file
        and srcId = "''your_source_script_id''"
        and srcContent = "Some [manifest_file, new_code_file]" and c' = new_code_file
        and ?w2.0 = demo_store]
      g1 g2 g3 f1 f2
    by simp
qed

lemma validate_trace:
  "validateAndTestScriptAccess R sid s = (r, s') \<Longrightarrow>
     (\<exists>v. r = Inr v) \<and> (fst s' = fst s \<or> fst s' = fst s @ [ProjectsGet sid])"
  by (auto simp: validateAndTestScriptAccess_def io_defs split: if_splits prod.splits sum.splits)

lemma readScriptIds_trace:
  "readScriptIds R cfg master s = (Inr m, s1) \<Longrightarrow>
     fst s1 = fst s @ [SpreadsheetsGet master (Some ''sheets.properties.title''),
                       ValuesGet master (manifest_range cfg)]"
  by (auto simp: readScriptIds_def io_defs split: if_splits prod.splits sum.splits)

lemma forEach_rows_scriptId:
  "(\<And>k' td'. m k' = Some td' \<Longrightarrow> scriptId td' \<noteq> []) \<Longrightarrow>
   forEach_rows rows m k = Some td \<Longrightarrow> scriptId td \<noteq> []"
proof (induction rows arbitrary: m)
  case Nil
  then show ?case by simp
next
  case (Cons r rows)
  have "\<And>k' td'. row_step r m k' = Some td' \<Longrightarrow> scriptId td' \<noteq> []"
    using Cons.prems(1)
    by (auto simp: row_step_def Let_def truthy_iff split: if_splits)
  from Cons.IH [OF this] Cons.prems(2) show ?case by simp
qed

lemma readScriptIds_scriptId:
  assumes "readScriptIds R cfg master s = (Inr m, s1)" and "map_get m tgt = Some td"
  shows "scriptId td \<noteq> []"
proof -
  from assms(1) obtain rows where "m = readScriptIds_rows rows"
    by (auto simp: readScriptIds_def io_defs split: if_splits prod.splits sum.splits)
  with assms(2) show ?thesis
    using forEach_rows_scriptId [of Map.empty rows]
    by (cases tgt) (auto simp: map_get_def readScriptIds_rows_def)
qed

text \<open>
  C3, amended. When the manifest is read and the target's entry has different numbers of
  image IDs and coordinate pairs, \<open>copyButtonsFromSheet\<close> fails in the state that the
  validation of the script leaves: the remote calls it has made are the two reads of the
  manifest and at most the metadata probe of the script (\<open>projects.get\<close>); no content is
  fetched or pushed and nothing is executed. The error is that of the first check that
  fails, in the order of the code: the validation's error when the script does not
  validate; else the missing-image-IDs error when the image list is empty; else the
  missing-coordinates error when the coordinate list is empty; else the count-mismatch
  error.
\<close>

theorem placeAssets_count_mismatch:
  assumes read: "readScriptIds R cfg master s = (Inr m, s1)"
    and td: "map_get m tgt = Some td"
    and mismatch: "length (buttonImageIds td) \<noteq> length (coordinates td)"
  shows "\<exists>msg v s2.
           validateAndTestScriptAccess R (scriptId td) s1 = (Inr v, s2)
           \<and> copyButtonsFromSheet R cfg gen master tgt tab bs s = (Inl msg, s2)
           \<and> fst s1 = fst s @ [SpreadsheetsGet master (Some ''sheets.properties.title''),
                               ValuesGet master (manifest_range cfg)]
           \<and> (fst s2 = fst s1 \<or> fst s2 = fst s1 @ [ProjectsGet (scriptId td)])
           \<and> msg = ''Error copying buttons to '' @ render tgt @ '': ''
                    @ (case v of
                         Invalid err \<Rightarrow> ''Cannot access script '' @ scriptId td @ '': '' @ err
                       | Valid title \<Rightarrow>
                           if buttonImageIds td = []
                           then ''No button image IDs found for '' @ render tgt
                           else if coordinates td = []
                           then ''No coordinates found for '' @ render tgt
                           else ''Mismatch: '' @ show_nat (length (buttonImageIds td))
                                  @ '' button IDs but ''
                                  @ show_nat (length (coordinates td))
                                  @ '' coordinate pairs'')"
proof -
  obtain r s2 where v: "validateAndTestScriptAccess R (scriptId td) s1 = (r, s2)"
    by (cases "validateAndTestScriptAccess R (scriptId td) s1") auto
  from validate_trace [OF v] obtain val where r: "r = Inr val"
    and tr: "fst s2 = fst s1 \<or> fst s2 = fst s1 @ [ProjectsGet (scriptId td)]" by auto
  have ne: "scriptId td \<noteq> []" by (rule readScriptIds_scriptId [OF read td])
  have run: "copyButtonsFromSheet R cfg gen master tgt tab bs s
         = (Inl (''Error copying buttons to '' @ render tgt @ '': ''
                    @ (case val of
                         Invalid err \<Rightarrow> ''Cannot access script '' @ scriptId td @ '': '' @ err
                       | Valid title \<Rightarrow>
                           if buttonImageIds td = []
                           then ''No button image IDs found for '' @ render tgt
                           else if coordinates td = []
                           then ''No coordinates found for '' @ render tgt
                           else ''Mismatch: '' @ show_nat (length (buttonImageIds td))
                                  @ '' button IDs but ''
                                  @ show_nat (length (coordinates td))
                                  @ '' coordinate pairs'')), s2)"
    using read td mismatch v r ne
    by (cases val) (simp_all add: copyButtonsFromSheet_def io_defs)
  show ?thesis
    using v r tr run readScriptIds_trace [OF read] by blast
qed

lemma show_nat_digits:
  "show_nat (Suc 0) = ''1''" "show_nat (Suc (Suc 0)) = ''2''"
  by code_simp+

lemma demo_read:
  "readScriptIds (store_remote demo_rows) default_config ''M'' ([], demo_store)
     = (Inr (readScriptIds_rows demo_rows),
        ([SpreadsheetsGet ''M'' (Some ''sheets.properties.title''),
          ValuesGet ''M'' (manifest_range default_config)], demo_store))"
  by (simp add: readScriptIds_def io_defs store_remote_def default_config_def)

lemma demo_entries:
  "map_get (readScriptIds_rows demo_rows) (Some ''T1'')
     = Some \<lparr>scriptId = script_A, buttonImageIds = [''img1'', ''img2''], coordinates = [(1, 2)]\<rparr>"
  "map_get (readScriptIds_rows demo_rows) (Some ''T4'')
     = Some \<lparr>scriptId = script_A, buttonImageIds = [''img1''], coordinates = []\<rparr>"
  "map_get (readScriptIds_rows demo_rows) (Some ''T5'')
     = Some \<lparr>scriptId = script_B, buttonImageIds = [''img1'', ''img2''], coordinates = [(1, 2)]\<rparr>"
  by code_simp+

lemma demo_validate:
  "validateAndTestScriptAccess (store_remote demo_rows) script_A (tr, demo_store)
     = (Inr (Valid (Some ''Untitled project'')), (tr @ [ProjectsGet script_A], demo_store))"
  "validateAndTestScriptAccess (store_remote demo_rows) script_B (tr, demo_store)
     = (Inr (Invalid ''Requested entity was not found.''),
        (tr @ [ProjectsGet script_B], demo_store))"
  by (simp_all add: validateAndTestScriptAccess_def io_defs store_remote_def script_A_def
      script_B_def demo_store_def isIdChar_def)

theorem placeAssets_count_mismatch_witness:
  "fst (copyButtonsFromSheet (store_remote demo_rows) default_config demo_gen ''M''
          (Some ''T1'') ''Buttons'' None ([], demo_store))
     = Inl ''Error copying buttons to T1: Mismatch: 2 button IDs but 1 coordinate pairs''
   \<and> fst (copyButtonsFromSheet (store_remote demo_rows) default_config demo_gen ''M''
          (Some ''T4'') ''Buttons'' None ([], demo_store))
     = Inl ''Error copying buttons to T4: No coordinates found for T4''
   \<and> fst (copyButtonsFromSheet (store_remote demo_rows) default_config demo_gen ''M''
          (Some ''T5'') ''Buttons'' None ([], demo_store))
     = Inl (''Error copying buttons to T5: Cannot access script '' @ script_B
             @ '': Requested entity was not found.'')
   \<and> fst (snd (copyButtonsFromSheet (store_remote demo_rows) default_config demo_gen ''M''
          (Some ''T5'') ''Buttons'' None ([], demo_store)))
     = [SpreadsheetsGet ''M'' (Some ''sheets.properties.title''),
        ValuesGet ''M'' (manifest_range default_config), ProjectsGet script_B]"
proof -
  let ?R = "store_remote demo_rows"
  let ?tr = "[SpreadsheetsGet ''M'' (Some ''sheets.properties.title''),
              ValuesGet ''M'' (manifest_range default_config)]"
  let ?t1 = "\<lparr>scriptId = script_A, buttonImageIds = [''img1'', ''img2''], coordinates = [(1, 2)]\<rparr>"
  let ?t4 = "\<lparr>scriptId = script_A, buttonImageIds = [''img1''], coordinates = []\<rparr>"
  let ?t5 = "\<lparr>scriptId = script_B, buttonImageIds = [''img1'', ''img2''], coordinates = [(1, 2)]\<rparr>"
  have mm: "length (buttonImageIds ?t1) \<noteq> length (coordinates ?t1)"
    "length (buttonImageIds ?t4) \<noteq> length (coordinates ?t4)"
    "length (buttonImageIds ?t5) \<noteq> length (coordinates ?t5)"
    by simp_all
  have a: "fst (copyButtonsFromSheet ?R default_config demo_gen ''M''
          (Some ''T1'') ''Buttons'' None ([], demo_store))
     = Inl ''Error copying buttons to T1: Mismatch: 2 button IDs but 1 coordinate pairs''"
    using placeAssets_count_mismatch [OF demo_read demo_entries(1) mm(1), of demo_gen "''Buttons''" None]
      demo_validate(1) [of ?tr]
    by (auto simp: show_nat_digits)
  have b: "fst (copyButtonsFromSheet ?R default_config demo_gen ''M''
          (Some ''T4'') ''Buttons'' None ([], demo_store))
     = Inl ''Error copying buttons to T4: No coordinates found for T4''"
    using placeAssets_count_mismatch [OF demo_read demo_entries(2) mm(2), of demo_gen "''Buttons''" None]
      demo_validate(1) [of ?tr]
    by auto
  have c: "copyButtonsFromSheet ?R default_config demo_gen ''M''
          (Some ''T5'') ''Buttons'' None ([], demo_store)
     = (Inl (''Error copying buttons to T5: Cannot access script '' @ script_B
             @ '': Requested entity was not found.''),
        (?tr @ [ProjectsGet script_B], demo_store))"
    using placeAssets_count_mismatch [OF demo_read demo_entries(3) mm(3), of demo_gen "''Buttons''" None]
      demo_validate(2) [of ?tr]
    by auto
  show ?thesis using a b c by simp
qed

text \<open>
  C3, as stated, fails. For the target \<open>T1\<close> (two image IDs, one coordinate pair) the
  count-mismatch error is raised after three remote calls; for \<open>T4\<close> (one image ID, no
  coordinates) the counts differ and the error is not the count-mismatch error.
\<close>

theorem placeAssets_remote_calls_precede_mismatch:
  "fst (copyButtonsFromSheet (store_remote demo_rows) default_config demo_gen ''M''
          (Some ''T1'') ''Buttons'' None ([], demo_store))
     = Inl ''Error copying buttons to T1: Mismatch: 2 button IDs but 1 coordinate pairs''
   \<and> fst (snd (copyButtonsFromSheet (store_remote demo_rows) default_config demo_gen ''M''
          (Some ''T1'') ''Buttons'' None ([], demo_store)))
     = [SpreadsheetsGet ''M'' (Some ''sheets.properties.title''),
        ValuesGet ''M'' ''TVDE Users!D2:G'', ProjectsGet ''AAAAAAAAAAAAAAAAAAAAAAAA'']
   \<and> fst (copyButtonsFromSheet (store_remote demo_rows) default_config demo_gen ''M''
          (Some ''T4'') ''Buttons'' None ([], demo_store))
     = Inl ''Error copying buttons to T4: No coordinates found for T4''"
  by code_simp

subsection \<open>Batch Orchestrator\<close>

lemma await_return_ok: "await (return_ok x) k = k x"
  by (rule ext) (simp add: io_defs)

lemma await_assoc: "await (await m f) g = await m (\<lambda>x. await (f x) g)"
  by (rule ext) (simp add: io_defs split: prod.splits sum.splits)

lemma extends_by_Nil: "extends_by r [] r"
  by (simp add: extends_by_def)

lemma extends_by_step:
  assumes "extends_by r [t] r1" and "extends_by r1 ts r2"
  shows "extends_by r (t # ts) r2"
proof -
  from assms(1) obtain n1 where n1: "details r1 = details r @ n1"
    "map detail_spreadsheetId n1 = map resolved_id [t]"
    "list_all (\<lambda>d. status d = Some ''success'' \<or> status d = Some ''failed'') n1"
    "successful r1 = successful r + length (filter (\<lambda>d. status d = Some ''success'') n1)"
    "failed r1 = failed r + length (filter (\<lambda>d. status d = Some ''failed'') n1)"
    "total r1 = total r"
    unfolding extends_by_def by blast
  from assms(2) obtain n2 where n2: "details r2 = details r1 @ n2"
    "map detail_spreadsheetId n2 = map resolved_id ts"
    "list_all (\<lambda>d. status d = Some ''success'' \<or> status d = Some ''failed'') n2"
    "successful r2 = successful r1 + length (filter (\<lambda>d. status d = Some ''success'') n2)"
    "failed r2 = failed r1 + length (filter (\<lambda>d. status d = Some ''failed'') n2)"
    "total r2 = total r1"
    unfolding extends_by_def by blast
  show ?thesis
    unfolding extends_by_def
    by (rule exI [of _ "n1 @ n2"]) (use n1 n2 in simp)
qed

lemma length_success_failed:
  "list_all (\<lambda>d. status d = Some ''success'' \<or> status d = Some ''failed'') ds \<Longrightarrow>
     length (filter (\<lambda>d. status d = Some ''success'') ds)
       + length (filter (\<lambda>d. status d = Some ''failed'') ds) = length ds"
  by (induction ds) auto

lemma extends_by_summary_ok:
  assumes "extends_by \<lparr>total = length ts, successful = 0, failed = 0, details = []\<rparr> ts r"
  shows "batch_summary_ok ts r"
proof -
  from assms obtain new where n: "details r = new"
    "map detail_spreadsheetId new = map resolved_id ts"
    "list_all (\<lambda>d. status d = Some ''success'' \<or> status d = Some ''failed'') new"
    "successful r = length (filter (\<lambda>d. status d = Some ''success'') new)"
    "failed r = length (filter (\<lambda>d. status d = Some ''failed'') new)"
    "total r = length ts"
    unfolding extends_by_def by auto
  from n(2) have len: "length new = length ts" by (metis length_map)
  show ?thesis
    unfolding batch_summary_ok_def
    using n len length_success_failed [OF n(3)] by simp
qed

text \<open>The references whose resolution returns: the strings and the falsy values.\<close>

lemma extractSpreadsheetId_value_returns:
  "(\<exists>sid. extractSpreadsheetId_value t = Inr sid) \<longleftrightarrow> (\<not> js_truthy t \<or> (\<exists>s. t = JString s))"
  by (cases t) (auto simp: extractSpreadsheetId_value_def)

lemma copyFunctions_body_extends:
  assumes "extractSpreadsheetId_value t = Inr tid"
  shows "\<exists>r' s'. copyFunctions_body R cfg m t r s = (Inr r', s') \<and> extends_by r [t] r'"
  using assms
  by (cases "copyFunctions_try R cfg m tid s"; cases "fst (copyFunctions_try R cfg m tid s)")
     (auto simp: copyFunctions_body_def io_defs extends_by_def resolved_id_def)

lemma copyFunctions_loop_extends:
  "\<forall>t \<in> set ts. \<exists>tid. extractSpreadsheetId_value t = Inr tid \<Longrightarrow>
   \<exists>r' s'. copyFunctions_loop R cfg m ts r s = (Inr r', s') \<and> extends_by r ts r'"
proof (induction ts arbitrary: r s)
  case Nil
  show ?case by (simp add: return_ok_def extends_by_Nil)
next
  case (Cons t ts)
  from Cons.prems obtain tid where "extractSpreadsheetId_value t = Inr tid" by auto
  from copyFunctions_body_extends [OF this] obtain r1 s1
    where b: "copyFunctions_body R cfg m t r s = (Inr r1, s1)" and e1: "extends_by r [t] r1"
    by blast
  from Cons.IH [of r1 s1] Cons.prems obtain r2 s2
    where l: "copyFunctions_loop R cfg m ts r1 s1 = (Inr r2, s2)" and e2: "extends_by r1 ts r2"
    by auto
  from b l have "copyFunctions_loop R cfg m (t # ts) r s = (Inr r2, s2)"
    by (simp add: await_def)
  with extends_by_step [OF e1 e2] show ?case by blast
qed

lemma copyFunctions_loop_append:
  "copyFunctions_loop R cfg m (pre @ post) r
     = await (copyFunctions_loop R cfg m pre r) (copyFunctions_loop R cfg m post)"
proof (induction pre arbitrary: r)
  case Nil
  show ?case by (simp add: await_return_ok)
next
  case (Cons t pre)
  have "copyFunctions_loop R cfg m (pre @ post)
          = (\<lambda>x. await (copyFunctions_loop R cfg m pre x) (copyFunctions_loop R cfg m post))"
    by (rule ext) (rule Cons.IH)
  then show ?case by (simp add: await_assoc)
qed

lemma copyButtons_body_extends:
  assumes "extractSpreadsheetId_value t = Inr tid"
  shows "\<exists>r' s'. copyButtons_body R cfg gen master tab bs t r s = (Inr r', s')
           \<and> extends_by r [t] r'"
  using assms
  by (cases "copyButtonsFromSheet R cfg gen master tid tab bs s";
      cases "fst (copyButtonsFromSheet R cfg gen master tid tab bs s)")
     (auto simp: copyButtons_body_def io_defs extends_by_def resolved_id_def)

lemma copyButtons_loop_extends:
  "\<forall>t \<in> set ts. \<exists>tid. extractSpreadsheetId_value t = Inr tid \<Longrightarrow>
   \<exists>r' s'. copyButtons_loop R cfg gen master tab bs ts r s = (Inr r', s') \<and> extends_by r ts r'"
proof (induction ts arbitrary: r s)
  case Nil
  show ?case by (simp add: return_ok_def extends_by_Nil)
next
  case (Cons t ts)
  from Cons.prems obtain tid where "extractSpreadsheetId_value t = Inr tid" by auto
  from copyButtons_body_extends [OF this] obtain r1 s1
    where b: "copyButtons_body R cfg gen master tab bs t r s = (Inr r1, s1)"
      and e1: "extends_by r [t] r1"
    by blast
  from Cons.IH [of r1 s1] Cons.prems obtain r2 s2
    where l: "copyButtons_loop R cfg gen master tab bs ts r1 s1 = (Inr r2, s2)"
      and e2: "extends_by r1 ts r2"
    by auto
  from b l have "copyButtons_loop R cfg gen master tab bs (t # ts) r s = (Inr r2, s2)"
    by (simp add: await_def)
  with extends_by_step [OF e1 e2] show ?case by blast
qed

lemma copyButtons_loop_append:
  "copyButtons_loop R cfg gen master tab bs (pre @ post) r
     = await (copyButtons_loop R cfg gen master tab bs pre r)
         (copyButtons_loop R cfg gen master tab bs post)"
proof (induction pre arbitrary: r)
  case Nil
  show ?case by (simp add: await_return_ok)
next
  case (Cons t pre)
  have "copyButtons_loop R cfg gen master tab bs (pre @ post)
          = (\<lambda>x. await (copyButtons_loop R cfg gen master tab bs pre x)
                     (copyButtons_loop R cfg gen master tab bs post))"
    by (rule ext) (rule Cons.IH)
  then show ?case by (simp add: await_assoc)
qed

lemma main_body_counts:
  "successCount (fst (main_body R sf t cs)) + failCount (fst (main_body R sf t cs))
     = successCount (fst cs) + failCount (fst cs) + 1"
  unfolding main_body_def
  by (cases "main_try R sf t (snd cs)") (auto split: sum.splits bool.splits)

lemma main_loop_counts:
  "successCount (fst (main_loop R sf ts cs)) + failCount (fst (main_loop R sf ts cs))
     = successCount (fst cs) + failCount (fst cs) + length ts"
proof (induction ts arbitrary: cs)
  case Nil
  show ?case by simp
next
  case (Cons t ts)
  show ?case
    using Cons.IH [of "main_body R sf t cs"] main_body_counts [of R sf t cs] by simp
qed

lemma main_loop_append:
  "main_loop R sf (pre @ post) cs = main_loop R sf post (main_loop R sf pre cs)"
  by (induction pre arbitrary: cs) simp_all

text \<open>
  What the three loops do contain. When the resolution of every target returns (strings
  and falsy values), each server section ends with a summary of one entry per target in
  input order and \<open>total = successful + failed\<close>, and an error thrown inside the \<open>try\<close>
  block at any position is recorded as a failure while the loop goes on with all the
  remaining targets; the loop of \<open>main\<close> counts every target once and goes on after a
  failure as well.
\<close>

lemma copyFunctions_summary:
  assumes "\<forall>t \<in> set targets. \<exists>tid. extractSpreadsheetId_value t = Inr tid"
    and "extractSpreadsheetId_value src = Inr sid"
    and "readScriptIds R cfg (render sid) s = (Inr m, s1)"
  shows "\<exists>resp s'. process_copyFunctions R cfg src targets s = (Inr (Completed resp), s')
           \<and> batch_summary_ok targets resp"
proof -
  let ?r0 = "\<lparr>total = length targets, successful = 0, failed = 0, details = []\<rparr>"
  from copyFunctions_loop_extends [OF assms(1), of R cfg m ?r0 s1] obtain r' s'
    where l: "copyFunctions_loop R cfg m targets ?r0 s1 = (Inr r', s')"
      and e: "extends_by ?r0 targets r'"
    by blast
  have "process_copyFunctions R cfg src targets s = (Inr (Completed r'), s')"
    using assms(2,3) l by (simp add: process_copyFunctions_def io_defs)
  with extends_by_summary_ok [OF e] show ?thesis by blast
qed

lemma copyFunctions_failure_contained:
  assumes "copyFunctions_loop R cfg m pre r s = (Inr r1, s1)"
    and "extractSpreadsheetId_value t = Inr tid"
    and "copyFunctions_try R cfg m tid s1 = (Inl msg, s2)"
  shows "copyFunctions_loop R cfg m (pre @ t # post) r s
           = copyFunctions_loop R cfg m post
               (r1\<lparr>failed := failed r1 + 1,
                   details := details r1 @ [TargetFailed tid msg]\<rparr>) s2"
  using assms
  by (simp add: copyFunctions_loop_append copyFunctions_body_def io_defs)

lemma copyButtons_summary:
  assumes "\<forall>t \<in> set targets. \<exists>tid. extractSpreadsheetId_value t = Inr tid"
    and "extractSpreadsheetId_value src = Inr sid"
  shows "\<exists>resp s'. process_copyButtons R cfg gen src targets tab bs s = (Inr resp, s')
           \<and> batch_summary_ok targets resp"
proof -
  let ?r0 = "\<lparr>total = length targets, successful = 0, failed = 0, details = []\<rparr>"
  from copyButtons_loop_extends [OF assms(1), of R cfg gen "render sid" tab bs ?r0 s] obtain r' s'
    where l: "copyButtons_loop R cfg gen (render sid) tab bs targets ?r0 s = (Inr r', s')"
      and e: "extends_by ?r0 targets r'"
    by blast
  have "process_copyButtons R cfg gen src targets tab bs s = (Inr r', s')"
    using assms(2) l by (simp add: process_copyButtons_def)
  with extends_by_summary_ok [OF e] show ?thesis by blast
qed

lemma copyButtons_failure_contained:
  assumes "copyButtons_loop R cfg gen master tab bs pre r s = (Inr r1, s1)"
    and "extractSpreadsheetId_value t = Inr tid"
    and "copyButtonsFromSheet R cfg gen master tid tab bs s1 = (Inl msg, s2)"
  shows "copyButtons_loop R cfg gen master tab bs (pre @ t # post) r s
           = copyButtons_loop R cfg gen master tab bs post
               (r1\<lparr>failed := failed r1 + 1,
                   details := details r1 @ [TargetFailed tid msg]\<rparr>) s2"
  using assms
  by (simp add: copyButtons_loop_append copyButtons_body_def io_defs)

lemma main_failure_contained:
  assumes "main_try R sf item (snd (main_loop R sf pre cs)) = (Inl msg, s2)"
  shows "main_loop R sf (pre @ item # post) cs
           = main_loop R sf post
               ((fst (main_loop R sf pre cs))
                  \<lparr>failCount := failCount (fst (main_loop R sf pre cs)) + 1\<rparr>, s2)"
  using assms by (simp add: main_loop_append main_body_def)

text \<open>
  What they do not contain: the resolution of the target's ID, which the two server loops
  run before the \<open>try\<close>. At the first target whose resolution throws, the loop throws.
\<close>

lemma copyFunctions_loop_aborts:
  assumes "copyFunctions_loop R cfg m pre r s = (Inr r1, s1)"
    and "extractSpreadsheetId_value t = Inl e"
  shows "copyFunctions_loop R cfg m (pre @ t # post) r s = (Inl e, s1)"
  using assms
  by (simp add: copyFunctions_loop_append copyFunctions_body_def io_defs)

lemma copyButtons_loop_aborts:
  assumes "copyButtons_loop R cfg gen master tab bs pre r s = (Inr r1, s1)"
    and "extractSpreadsheetId_value t = Inl e"
  shows "copyButtons_loop R cfg gen master tab bs (pre @ t # post) r s = (Inl e, s1)"
  using assms
  by (simp add: copyButtons_loop_append copyButtons_body_def io_defs)

text \<open>
  C1 fails on the code. The request \<open>targetSheets: [T2, 123, T3]\<close> passes the
  handler's check of the payload. In the \<open>copyFunctions\<close> section the transfer to \<open>T2\<close>
  throws and is recorded; then the resolution of \<open>123\<close> throws a TypeError outside the
  \<open>try\<close>: the handler throws, \<open>T3\<close> is never processed and no summary is produced. The
  \<open>copyButtons\<close> section does the same. With the string \<open>123\<close> in the place of the
  number, both sections end with one entry per target.
\<close>

theorem batch_not_contained_for_non_string_target:
  "fst (process_copyFunctions (store_remote demo_rows) default_config (JString ''M'')
          [JString ''T2'', JNumber 123, JString ''T3''] ([], demo_store))
     = Inl ''input.includes is not a function''
   \<and> fst (process_copyButtons (store_remote demo_rows) default_config demo_gen (JString ''M'')
          [JString ''T2'', JNumber 123, JString ''T3''] ''Buttons'' None ([], demo_store))
     = Inl ''input.includes is not a function''
   \<and> (case fst (process_copyFunctions (store_remote demo_rows) default_config (JString ''M'')
                  [JString ''T2'', JString ''123'', JString ''T3''] ([], demo_store)) of
         Inr (Completed resp) \<Rightarrow>
           map status (details resp) = [Some ''failed'', Some ''failed'', Some ''success'']
           \<and> map detail_spreadsheetId (details resp) = [Some ''T2'', Some ''123'', Some ''T3'']
           \<and> total resp = 3 \<and> successful resp = 1 \<and> failed resp = 2
       | _ \<Rightarrow> False)
   \<and> (case fst (process_copyButtons (store_remote demo_rows) default_config demo_gen
                  (JString ''M'') [JString ''T2'', JString ''123'', JString ''T3'']
                  ''Buttons'' None ([], demo_store)) of
         Inr resp \<Rightarrow>
           map status (details resp) = [Some ''failed'', Some ''failed'', Some ''success'']
           \<and> map detail_spreadsheetId (details resp) = [Some ''T2'', Some ''123'', Some ''T3'']
           \<and> total resp = 3 \<and> successful resp = 1 \<and> failed resp = 2
       | Inl e \<Rightarrow> False)"
  by code_simp

text \<open>The containment lemmas at concrete inputs, with a failure in the middle.\<close>

lemma run_fails:
  "isl (fst X) \<Longrightarrow> X = (Inl (projl (fst X)), snd X)"
  by (cases X; cases "fst X") auto

lemma run_returns:
  "\<not> isl (fst X) \<Longrightarrow> X = (Inr (projr (fst X)), snd X)"
  by (cases X; cases "fst X") auto

lemma batch_containment_example:
  "(\<exists>resp s'. process_copyFunctions (store_remote demo_rows) default_config (JString ''M'')
                 [JString ''T1'', JString ''T2'', JString ''T3''] ([], demo_store)
               = (Inr (Completed resp), s')
        \<and> batch_summary_ok [JString ''T1'', JString ''T2'', JString ''T3''] resp)
   \<and> (\<exists>resp s'. process_copyButtons (store_remote demo_rows) default_config demo_gen
                 (JString ''M'') [JString ''T3'', JString ''T1'', JString ''T2''] ''Buttons'' None
                 ([], demo_store)
               = (Inr resp, s')
        \<and> batch_summary_ok [JString ''T3'', JString ''T1'', JString ''T2''] resp)
   \<and> map status (details (projr (fst (copyFunctions_loop (store_remote demo_rows) default_config
          (readScriptIds_rows demo_rows) ([JString ''T1''] @ JString ''T2'' # [JString ''T3''])
          \<lparr>total = 3, successful = 0, failed = 0, details = []\<rparr> ([], demo_store)))))
       = [Some ''success'', Some ''failed'', Some ''success'']
   \<and> fst (main_loop (store_remote demo_rows) [manifest_file, new_code_file]
          ([\<lparr>item_spreadsheetId = Some ''T1'', item_scriptId = Some script_B\<rparr>]
             @ \<lparr>item_spreadsheetId = Some ''T2'', item_scriptId = Some script_B\<rparr>
             # [\<lparr>item_spreadsheetId = Some ''T3'', item_scriptId = Some script_A\<rparr>])
          (\<lparr>successCount = 0, failCount = 0\<rparr>, ([], demo_store)))
       = \<lparr>successCount = 1, failCount = 2\<rparr>"
proof -
  let ?R = "store_remote demo_rows"
  let ?m = "readScriptIds_rows demo_rows"
  let ?r0 = "\<lparr>total = 3, successful = 0, failed = 0, details = []\<rparr>"
  let ?s0 = "([]::call list, demo_store)"
  let ?P = "copyFunctions_loop ?R default_config ?m [JString ''T1''] ?r0 ?s0"
  let ?X = "copyFunctions_try ?R default_config ?m (Some ''T2'') (snd ?P)"
  let ?sf = "[manifest_file, new_code_file]"
  let ?i1 = "\<lparr>item_spreadsheetId = Some ''T1'', item_scriptId = Some script_B\<rparr>"
  let ?i2 = "\<lparr>item_spreadsheetId = Some ''T2'', item_scriptId = Some script_B\<rparr>"
  let ?i3 = "\<lparr>item_spreadsheetId = Some ''T3'', item_scriptId = Some script_A\<rparr>"
  let ?cs = "(\<lparr>successCount = 0, failCount = 0\<rparr>, ([]::call list, demo_store))"
  let ?Z = "main_try ?R ?sf ?i2 (snd (main_loop ?R ?sf [?i1] ?cs))"
  have res: "\<forall>t \<in> set [JString ''T1'', JString ''T2'', JString ''T3''].
               \<exists>tid. extractSpreadsheetId_value t = Inr tid"
    "\<forall>t \<in> set [JString ''T3'', JString ''T1'', JString ''T2''].
               \<exists>tid. extractSpreadsheetId_value t = Inr tid"
    by (simp_all add: extractSpreadsheetId_value_def)
  have src: "extractSpreadsheetId_value (JString ''M'') = Inr (Some ''M'')"
    by (simp add: extractSpreadsheetId_value_def extractSpreadsheetId_def trim_def
        isWhiteSpace_def)
  have t2: "extractSpreadsheetId_value (JString ''T2'') = Inr (Some ''T2'')"
    by (simp add: extractSpreadsheetId_value_def extractSpreadsheetId_bare_examples)
  have read: "readScriptIds ?R default_config (render (Some ''M'')) ([], demo_store)
              = (Inr ?m, ([SpreadsheetsGet ''M'' (Some ''sheets.properties.title''),
                           ValuesGet ''M'' (manifest_range default_config)], demo_store))"
    by (simp add: readScriptIds_def io_defs store_remote_def default_config_def)
  have P: "?P = (Inr (projr (fst ?P)), snd ?P)" by (rule run_returns) code_simp
  have X: "?X = (Inl (projl (fst ?X)), snd ?X)" by (rule run_fails) code_simp
  have Z: "?Z = (Inl (projl (fst ?Z)), snd ?Z)" by (rule run_fails) code_simp
  note A = copyFunctions_summary [OF res(1) src read]
  note C = copyButtons_summary [OF res(2) src, of ?R default_config demo_gen "''Buttons''" None ?s0]
  note B = copyFunctions_failure_contained [OF P t2 X, of "[JString ''T3'']"]
  have B': "map status (details (projr (fst (copyFunctions_loop ?R default_config ?m [JString ''T3'']
              ((projr (fst ?P))\<lparr>failed := failed (projr (fst ?P)) + 1,
                  details := details (projr (fst ?P)) @ [TargetFailed (Some ''T2'') (projl (fst ?X))]\<rparr>)
              (snd ?X)))))
          = [Some ''success'', Some ''failed'', Some ''success'']"
    by code_simp
  note D = main_failure_contained [OF Z, of "[?i3]"]
  have D': "fst (main_loop ?R ?sf [?i3]
              ((fst (main_loop ?R ?sf [?i1] ?cs))
                 \<lparr>failCount := failCount (fst (main_loop ?R ?sf [?i1] ?cs)) + 1\<rparr>, snd ?Z))
          = \<lparr>successCount = 1, failCount = 2\<rparr>"
    by code_simp
  show ?thesis
    using A C B B' D D' by simp
qed

end
